theory Spec2Isabelle
  imports Complex_Main "HOL-Library.List_Lexorder" "HOL-Library.Char_ord"
    "HOL-Library.Product_Lexorder"
begin

section \<open>Python strings\<close>

text \<open>
  Text is held as its UTF-8 byte sequence (\<open>string\<close> is \<open>char list\<close>, one \<open>char\<close>
  per byte).  Replacing a substring on the bytes agrees with replacing it on the code points,
  because UTF-8 is self-synchronising.  The rupee sign U+20B9 is the three bytes
  \<open>E2 82 B9\<close>.  The literal that \<open>clean_currency_column\<close> removes is written in
  \<open>data_processor.py\<close> as the three code points U+00E2, U+201A, U+00B9 (the bytes
  \<open>C3 A2 E2 80 9A C2 B9\<close>).
\<close>

definition rupee :: string where
  "rupee = [CHR 0xE2, CHR 0x82, CHR 0xB9]"

definition rupee_literal :: string where
  "rupee_literal = [CHR 0xC3, CHR 0xA2, CHR 0xE2, CHR 0x80, CHR 0x9A, CHR 0xC2, CHR 0xB9]"

text \<open>
  \<open>str.replace(old, new)\<close>: every non-overlapping occurrence, scanning from the left.  The
  source only calls it with a non-empty \<open>old\<close>; with an empty one this model returns the text
  unchanged.
\<close>

function str_replace :: "string \<Rightarrow> string \<Rightarrow> string \<Rightarrow> string" where
  "str_replace old new s =
     (if s = [] \<or> old = [] then s
      else if take (length old) s = old then new @ str_replace old new (drop (length old) s)
      else hd s # str_replace old new (tl s))"
  by pat_completeness auto
termination
  by (relation "measure (\<lambda>(old, new, s). length s)") (auto simp: Suc_le_eq)

declare str_replace.simps [simp del]

text \<open>\<open>str.strip()\<close> on the ASCII white-space characters (those \<open>str.isspace\<close> accepts below 128).\<close>

definition is_space :: "char \<Rightarrow> bool" where
  "is_space c \<longleftrightarrow> c \<in> set [CHR 0x20, CHR 0x09, CHR 0x0A, CHR 0x0B, CHR 0x0C, CHR 0x0D,
                               CHR 0x1C, CHR 0x1D, CHR 0x1E, CHR 0x1F]"

definition str_strip :: "string \<Rightarrow> string" where
  "str_strip s = rev (dropWhile is_space (rev (dropWhile is_space s)))"

text \<open>\<open>str(n)\<close> for a Python integer, and \<open>str.zfill(width)\<close>, which keeps a leading sign in front
  of the padding and leaves a text of \<open>width\<close> or more characters as it is.\<close>

definition digit_char :: "nat \<Rightarrow> char" where
  "digit_char d = ''0123456789'' ! (d mod 10)"

function str_nat :: "nat \<Rightarrow> string" where
  "str_nat n = (if n < 10 then [digit_char n] else str_nat (n div 10) @ [digit_char (n mod 10)])"
  by pat_completeness auto
termination
  by (relation "measure id") auto

declare str_nat.simps [simp del]

definition str_int :: "int \<Rightarrow> string" where
  "str_int i = (if i < 0 then CHR ''-'' # str_nat (nat (- i)) else str_nat (nat i))"

definition zfill :: "nat \<Rightarrow> string \<Rightarrow> string" where
  "zfill width s =
     (if width \<le> length s then s
      else (case s of
              [] \<Rightarrow> replicate width CHR ''0''
            | c # cs \<Rightarrow>
                if c = CHR ''+'' \<or> c = CHR ''-''
                then c # replicate (width - length s) CHR ''0'' @ cs
                else replicate (width - length s) CHR ''0'' @ s))"

section \<open>Reading numbers: \<open>pd.to_numeric(..., errors='coerce')\<close>\<close>

text \<open>
  The reader accepts a decimal literal: an optional sign, digits with an optional fraction
  (or a fraction alone), and an optional exponent.  Everything else is unparseable and becomes
  \<open>None\<close>, the model of the NaN that \<open>errors='coerce'\<close> produces.  Floating-point numbers are
  modelled by exact rationals throughout; the literals \<open>inf\<close> and \<open>infinity\<close>, which have no
  rational value, are outside the model.
\<close>

definition is_digit :: "char \<Rightarrow> bool" where
  "is_digit c \<longleftrightarrow> c \<in> set ''0123456789''"

definition digit_val :: "char \<Rightarrow> nat" where
  "digit_val c = of_char c - 48"

definition nat_of_digits :: "string \<Rightarrow> nat" where
  "nat_of_digits ds = foldl (\<lambda>n c. 10 * n + digit_val c) 0 ds"

definition split_sign :: "string \<Rightarrow> bool \<times> string" where
  "split_sign s =
     (case s of
        [] \<Rightarrow> (False, [])
      | c # cs \<Rightarrow> if c = CHR ''-'' then (True, cs)
                  else if c = CHR ''+'' then (False, cs) else (False, s))"

definition parse_mantissa :: "string \<Rightarrow> rat option" where
  "parse_mantissa m =
     (let ip = takeWhile is_digit m; rest = dropWhile is_digit m
      in case rest of
           [] \<Rightarrow> if ip = [] then None else Some (of_nat (nat_of_digits ip))
         | c # fp \<Rightarrow>
             if c = CHR ''.'' \<and> list_all is_digit fp \<and> (ip \<noteq> [] \<or> fp \<noteq> [])
             then Some (of_nat (nat_of_digits (ip @ fp)) / 10 ^ length fp)
             else None)"

definition parse_exponent :: "string \<Rightarrow> int option" where
  "parse_exponent e =
     (case split_sign e of
        (neg, ds) \<Rightarrow>
          if ds \<noteq> [] \<and> list_all is_digit ds
          then Some (if neg then - int (nat_of_digits ds) else int (nat_of_digits ds))
          else None)"

definition is_exp_mark :: "char \<Rightarrow> bool" where
  "is_exp_mark c \<longleftrightarrow> c = CHR ''e'' \<or> c = CHR ''E''"

definition scale10 :: "rat \<Rightarrow> int \<Rightarrow> rat" where
  "scale10 v k = (if 0 \<le> k then v * 10 ^ nat k else v / 10 ^ nat (- k))"

definition to_numeric :: "string \<Rightarrow> rat option" where
  "to_numeric s =
     (case split_sign s of
        (neg, body) \<Rightarrow>
          (case parse_mantissa (takeWhile (\<lambda>c. \<not> is_exp_mark c) body) of
             None \<Rightarrow> None
           | Some v \<Rightarrow>
               (case dropWhile (\<lambda>c. \<not> is_exp_mark c) body of
                  [] \<Rightarrow> Some (if neg then - v else v)
                | _ # e \<Rightarrow>
                    (case parse_exponent e of
                       None \<Rightarrow> None
                     | Some k \<Rightarrow> Some (scale10 (if neg then - v else v) k)))))"

section \<open>Data frames\<close>

text \<open>
  A pandas \<open>DataFrame\<close> is its ordered list of column names and its list of rows; a row gives
  the cell under each column name, and \<open>NaN\<close> under every name that is not a column.  Column
  names are unique (\<open>read_excel\<close> renames repeated headers).  A \<open>Series\<close> is the list of the
  cells of one column.  Exceptions raised inside pandas are values of \<open>error\<close>.
\<close>

datatype error = KeyError string | TypeError | ValueError

datatype cell = Str string | Num rat | Bool bool | NaN

type_synonym row = "string \<Rightarrow> cell"

type_synonym series = "cell list"

record frame =
  columns :: "string list"
  rows :: "row list"

definition bind_err :: "error + 'a \<Rightarrow> ('a \<Rightarrow> error + 'b) \<Rightarrow> error + 'b" where
  "bind_err m f = (case m of Inl e \<Rightarrow> Inl e | Inr x \<Rightarrow> f x)"

definition row_of :: "(string \<times> cell) list \<Rightarrow> row" where
  "row_of kvs = (\<lambda>c. case map_of kvs c of Some v \<Rightarrow> v | None \<Rightarrow> NaN)"

text \<open>\<open>df[c]\<close> raises \<open>KeyError\<close> when \<open>c\<close> is not a column.\<close>

definition getitem :: "string \<Rightarrow> frame \<Rightarrow> error + series" where
  "getitem c df =
     (if c \<in> set (columns df) then Inr (map (\<lambda>r. r c) (rows df)) else Inl (KeyError c))"

text \<open>\<open>df[c] = series\<close> overwrites the column in place, or appends it as the last column.  The
  source only assigns a series computed from the same frame, so the lengths agree.\<close>

definition add_column :: "string \<Rightarrow> string list \<Rightarrow> string list" where
  "add_column c cs = (if c \<in> set cs then cs else cs @ [c])"

definition setitem :: "string \<Rightarrow> series \<Rightarrow> frame \<Rightarrow> frame" where
  "setitem c vs df =
     \<lparr>columns = add_column c (columns df),
      rows = map2 (\<lambda>r v. r(c := v)) (rows df) vs\<rparr>"

text \<open>\<open>df[c] = scalar\<close>.\<close>

definition setitem_scalar :: "string \<Rightarrow> cell \<Rightarrow> frame \<Rightarrow> frame" where
  "setitem_scalar c v df =
     \<lparr>columns = add_column c (columns df), rows = map (\<lambda>r. r(c := v)) (rows df)\<rparr>"

text \<open>\<open>df[mask]\<close> with a boolean series keeps the rows whose flag is set.\<close>

definition mask_rows :: "bool list \<Rightarrow> frame \<Rightarrow> frame" where
  "mask_rows bs df = df\<lparr>rows := map fst (filter snd (zip (rows df) bs))\<rparr>"

text \<open>\<open>df.loc[mask, c] = scalar\<close>.\<close>

definition loc_set :: "bool list \<Rightarrow> string \<Rightarrow> cell \<Rightarrow> frame \<Rightarrow> frame" where
  "loc_set bs c v df =
     \<lparr>columns = add_column c (columns df),
      rows = map2 (\<lambda>r b. if b then r(c := v) else r) (rows df) bs\<rparr>"

text \<open>A row restricted to the columns \<open>cs\<close>.\<close>

definition keep :: "string list \<Rightarrow> row \<Rightarrow> row" where
  "keep cs r = (\<lambda>c. if c \<in> set cs then r c else NaN)"

text \<open>\<open>df.drop(columns=cs)\<close> for names that are all present.\<close>

definition drop_columns :: "string list \<Rightarrow> frame \<Rightarrow> frame" where
  "drop_columns cs df =
     (let remaining = filter (\<lambda>c. c \<notin> set cs) (columns df)
      in \<lparr>columns = remaining, rows = map (keep remaining) (rows df)\<rparr>)"

text \<open>\<open>df[cs]\<close> with a list of names: the columns in the order asked for; the first name
  that is not a column raises \<open>KeyError\<close>.\<close>

definition select_columns :: "string list \<Rightarrow> frame \<Rightarrow> error + frame" where
  "select_columns cs df =
     (case find (\<lambda>c. c \<notin> set (columns df)) cs of
        Some c \<Rightarrow> Inl (KeyError c)
      | None \<Rightarrow>
          Inr \<lparr>columns = cs, rows = map (keep cs) (rows df)\<rparr>)"

text \<open>\<open>astype(str)\<close>: a text stays as it is, a missing value prints as \<open>nan\<close>.  A number
  prints in positional decimal notation (pandas appends \<open>.0\<close> to a whole float and switches to
  exponent notation for very large or small ones; all of these read back as the same number).\<close>

fun frac_digits :: "nat \<Rightarrow> rat \<Rightarrow> string" where
  "frac_digits 0 r = []"
| "frac_digits (Suc n) r =
     (if r = 0 then []
      else digit_char (nat \<lfloor>r * 10\<rfloor>) # frac_digits n (r * 10 - of_int \<lfloor>r * 10\<rfloor>))"

definition str_num :: "rat \<Rightarrow> string" where
  "str_num r =
     (if of_int \<lfloor>r\<rfloor> = r then str_int \<lfloor>r\<rfloor>
      else (if r < 0 then ''-'' else []) @ str_nat (nat \<lfloor>\<bar>r\<bar>\<rfloor>) @ ''.''
           @ frac_digits 17 (\<bar>r\<bar> - of_int \<lfloor>\<bar>r\<bar>\<rfloor>))"

fun astype_str :: "cell \<Rightarrow> string" where
  "astype_str (Str s) = s"
| "astype_str (Num r) = str_num r"
| "astype_str (Bool b) = (if b then ''True'' else ''False'')"
| "astype_str NaN = ''nan''"

text \<open>\<open>pd.to_numeric(series, errors='coerce')\<close> and \<open>fillna(v)\<close>, cell by cell.\<close>

fun to_numeric_cell :: "cell \<Rightarrow> cell" where
  "to_numeric_cell (Str s) = (case to_numeric s of Some r \<Rightarrow> Num r | None \<Rightarrow> NaN)"
| "to_numeric_cell (Num r) = Num r"
| "to_numeric_cell (Bool b) = Num (of_bool b)"
| "to_numeric_cell NaN = NaN"

fun fillna :: "rat \<Rightarrow> cell \<Rightarrow> cell" where
  "fillna v NaN = Num v"
| "fillna v c = c"

section \<open>\<open>modules/data_processor.py\<close>: class \<open>DataProcessor\<close>\<close>

definition filter_overdue :: "frame \<Rightarrow> error + frame" where
  "filter_overdue df =
     bind_err (getitem ''Status'' df)
       (\<lambda>status. Inr (mask_rows (map (\<lambda>v. v = Str ''Overdue'') status) df))"

definition remove_duplicate_columns :: "frame \<Rightarrow> frame" where
  "remove_duplicate_columns df =
     (let columns_to_drop = [''Sale person'']
      in drop_columns (filter (\<lambda>col. col \<in> set (columns df)) columns_to_drop) df)"

definition clean_currency_column :: "frame \<Rightarrow> string \<Rightarrow> rat \<Rightarrow> error + frame" where
  "clean_currency_column df column_name fill_na =
     bind_err (getitem column_name df)
       (\<lambda>s. let df1 = setitem column_name
                         (map (\<lambda>v. Str (str_strip (str_replace '','' []
                                 (str_replace rupee_literal [] (astype_str v))))) s) df
            in bind_err (getitem column_name df1)
                 (\<lambda>s1. Inr (setitem column_name
                               (map (\<lambda>v. fillna fill_na (to_numeric_cell v)) s1) df1)))"

definition clean_age_column :: "frame \<Rightarrow> int \<Rightarrow> error + frame" where
  "clean_age_column df opening_balance_age =
     bind_err (getitem ''Age'' df)
       (\<lambda>s. let df1 = setitem ''Age''
                         (map (\<lambda>v. Str (str_strip (str_replace '' Days'' [] (astype_str v)))) s) df
            in bind_err (getitem ''Age'' df1)
                 (\<lambda>s1. let df2 = setitem ''Age'' (map to_numeric_cell s1) df1
                       in bind_err (getitem ''Type'' df2)
                            (\<lambda>ty. Inr (loc_set (map (\<lambda>v. v = Str ''Customer Opening Balance'') ty)
                                          ''Age'' (Num (of_int opening_balance_age)) df2))))"

definition clean_data :: "frame \<Rightarrow> int \<Rightarrow> error + frame" where
  "clean_data df opening_balance_age =
     (let df = remove_duplicate_columns df
      in bind_err (clean_currency_column df ''Balance Due'' 0)
           (\<lambda>df. bind_err (clean_currency_column df ''Amount'' 0)
                   (\<lambda>df. clean_age_column df opening_balance_age)))"


section \<open>Numeric series\<close>

text \<open>
  Arithmetic and comparison on a series work cell by cell.  A missing value propagates
  (a comparison with it is false), a boolean counts as 0 or 1, and a text in the column makes
  the whole operation raise \<open>TypeError\<close>.
\<close>

fun num :: "cell \<Rightarrow> error + rat option" where
  "num (Num r) = Inr (Some r)"
| "num (Bool b) = Inr (Some (of_bool b))"
| "num NaN = Inr None"
| "num (Str s) = Inl TypeError"

definition lift1 :: "(rat \<Rightarrow> rat) \<Rightarrow> cell \<Rightarrow> error + cell" where
  "lift1 f v =
     bind_err (num v) (\<lambda>a. Inr (case a of None \<Rightarrow> NaN | Some x \<Rightarrow> Num (f x)))"

definition lift2 :: "(rat \<Rightarrow> rat \<Rightarrow> rat) \<Rightarrow> cell \<Rightarrow> cell \<Rightarrow> error + cell" where
  "lift2 f v w =
     bind_err (num v) (\<lambda>a. bind_err (num w) (\<lambda>b.
       Inr (case (a, b) of (Some x, Some y) \<Rightarrow> Num (f x y) | _ \<Rightarrow> NaN)))"

fun traverse :: "('a \<Rightarrow> error + 'b) \<Rightarrow> 'a list \<Rightarrow> error + 'b list" where
  "traverse f [] = Inr []"
| "traverse f (x # xs) =
     bind_err (f x) (\<lambda>y. bind_err (traverse f xs) (\<lambda>ys. Inr (y # ys)))"

definition ser_gt_scalar :: "series \<Rightarrow> rat \<Rightarrow> error + bool list" where
  "ser_gt_scalar s k =
     traverse (\<lambda>v. bind_err (num v) (\<lambda>a. Inr (case a of None \<Rightarrow> False | Some x \<Rightarrow> k < x))) s"

definition ser_sub_scalar :: "series \<Rightarrow> rat \<Rightarrow> error + series" where
  "ser_sub_scalar s k = traverse (lift1 (\<lambda>x. x - k)) s"

definition ser_div_scalar :: "series \<Rightarrow> rat \<Rightarrow> error + series" where
  "ser_div_scalar s k = traverse (lift1 (\<lambda>x. x / k)) s"

definition ser_clip_upper :: "series \<Rightarrow> rat \<Rightarrow> error + series" where
  "ser_clip_upper s upper = traverse (lift1 (\<lambda>x. min x upper)) s"

definition ser_sub :: "series \<Rightarrow> series \<Rightarrow> error + series" where
  "ser_sub s t = traverse (\<lambda>(v, w). lift2 (\<lambda>x y. x - y) v w) (zip s t)"

definition ser_mul :: "series \<Rightarrow> series \<Rightarrow> error + series" where
  "ser_mul s t = traverse (\<lambda>(v, w). lift2 (\<lambda>x y. x * y) v w) (zip s t)"

text \<open>\<open>Series.round(decimals)\<close> is numpy's rounding: scale by \<open>10 ^ decimals\<close>, round to the
  nearest integer with ties going to the even one, scale back.\<close>

definition round_half_even :: "rat \<Rightarrow> int" where
  "round_half_even x =
     (let f = \<lfloor>x\<rfloor>; d = x - of_int f
      in if d < 1 / 2 then f else if 1 / 2 < d then f + 1 else if even f then f else f + 1)"

definition round_to :: "nat \<Rightarrow> rat \<Rightarrow> rat" where
  "round_to decimals x = of_int (round_half_even (x * 10 ^ decimals)) / 10 ^ decimals"

definition ser_round :: "nat \<Rightarrow> series \<Rightarrow> error + series" where
  "ser_round decimals s = traverse (lift1 (round_to decimals)) s"

text \<open>\<open>astype(int)\<close> truncates towards zero and raises \<open>ValueError\<close> on a missing value.  The
  source applies it to the result of \<open>round()\<close> only, which has already raised on a text.\<close>

definition trunc :: "rat \<Rightarrow> int" where
  "trunc x = (if 0 \<le> x then \<lfloor>x\<rfloor> else \<lceil>x\<rceil>)"

fun astype_int_cell :: "cell \<Rightarrow> error + cell" where
  "astype_int_cell (Num r) = Inr (Num (of_int (trunc r)))"
| "astype_int_cell (Bool b) = Inr (Num (of_bool b))"
| "astype_int_cell NaN = Inl ValueError"
| "astype_int_cell (Str s) = Inl ValueError"

definition astype_int :: "series \<Rightarrow> error + series" where
  "astype_int s = traverse astype_int_cell s"

section \<open>Sorting, grouping, renaming\<close>

text \<open>
  Cells are ordered by \<open>cell_key\<close>: numbers by value, texts lexicographically by character
  code, missing values last (\<open>na_position='last'\<close>).  \<open>sort_values\<close> is modelled as a stable
  sort; pandas does not promise the relative order of rows with equal keys under its default
  algorithm.  The columns the source sorts and groups by hold values of one kind; the order
  between cells of different kinds is fixed here by the first component of the key.
\<close>

fun cell_key :: "cell \<Rightarrow> nat \<times> rat \<times> string" where
  "cell_key (Bool b) = (0, of_bool b, [])"
| "cell_key (Num r) = (1, r, [])"
| "cell_key (Str s) = (2, 0, s)"
| "cell_key NaN = (3, 0, [])"

definition sort_values :: "string \<Rightarrow> frame \<Rightarrow> error + frame" where
  "sort_values col df =
     (if col \<in> set (columns df)
      then Inr (df\<lparr>rows := sort_key (\<lambda>r. cell_key (r col)) (rows df)\<rparr>)
      else Inl (KeyError col))"

text \<open>
  \<open>df.groupby(keys).agg({val: 'sum'}).reset_index()\<close>: one row per distinct combination of the
  key cells, the combinations in ascending order (\<open>sort=True\<close>); rows with a missing key cell
  belong to no group (\<open>dropna=True\<close>); the sum skips missing values.  The result has the key
  columns followed by \<open>val\<close>.
\<close>

definition group_total :: "string \<Rightarrow> row list \<Rightarrow> error + cell" where
  "group_total val rs =
     bind_err (traverse (\<lambda>r. num (r val)) rs)
       (\<lambda>vs. Inr (Num (sum_list (map (\<lambda>a. case a of None \<Rightarrow> 0 | Some x \<Rightarrow> x) vs))))"

definition group_keys :: "string list \<Rightarrow> row list \<Rightarrow> cell list list" where
  "group_keys keys rs = sort_key (map cell_key) (remdups (map (\<lambda>r. map r keys) rs))"

definition complete_rows :: "string list \<Rightarrow> row list \<Rightarrow> row list" where
  "complete_rows keys rs = filter (\<lambda>r. list_all (\<lambda>c. r c \<noteq> NaN) keys) rs"

definition groupby_sum :: "string list \<Rightarrow> string \<Rightarrow> frame \<Rightarrow> error + frame" where
  "groupby_sum keys val df =
     (case find (\<lambda>c. c \<notin> set (columns df)) keys of
        Some c \<Rightarrow> Inl (KeyError c)
      | None \<Rightarrow>
          if val \<notin> set (columns df) then Inl (KeyError val)
          else
            (let rs = complete_rows keys (rows df)
             in bind_err
                  (traverse
                     (\<lambda>k. bind_err (group_total val (filter (\<lambda>r. map r keys = k) rs))
                            (\<lambda>t. Inr ((row_of (zip keys k))(val := t))))
                     (group_keys keys rs))
                  (\<lambda>out. Inr \<lparr>columns = keys @ [val], rows = out\<rparr>)))"

text \<open>\<open>df.rename(columns={old: new})\<close>; a name that is not a column is ignored.\<close>

definition rename_row :: "string \<Rightarrow> string \<Rightarrow> row \<Rightarrow> row" where
  "rename_row old new r = (\<lambda>c. if c = new then r old else if c = old then NaN else r c)"

definition rename_column :: "string \<Rightarrow> string \<Rightarrow> frame \<Rightarrow> frame" where
  "rename_column old new df =
     (if old \<notin> set (columns df) then df
      else \<lparr>columns = map (\<lambda>c. if c = old then new else c) (columns df),
            rows = map (rename_row old new) (rows df)\<rparr>)"

section \<open>\<open>modules/interest_calculator.py\<close>: class \<open>InterestCalculator\<close>\<close>

record interest_calculator =
  per_day_rate :: rat
  due_days_threshold :: int
  max_working_days :: int

text \<open>\<open>__init__\<close> stores its three arguments; it has no other statement.\<close>

definition InterestCalculator_init :: "rat \<Rightarrow> int \<Rightarrow> int \<Rightarrow> interest_calculator" where
  "InterestCalculator_init rate threshold max_days =
     \<lparr>per_day_rate = rate, due_days_threshold = threshold, max_working_days = max_days\<rparr>"

definition InterestCalculator_default :: interest_calculator where
  "InterestCalculator_default = InterestCalculator_init (6 / 100) 150 31"

definition filter_by_age :: "interest_calculator \<Rightarrow> frame \<Rightarrow> error + frame" where
  "filter_by_age self df =
     bind_err (getitem ''Age'' df) (\<lambda>age.
     bind_err (ser_gt_scalar age (of_int (due_days_threshold self))) (\<lambda>m.
     Inr (mask_rows m df)))"

definition calculate_working_days :: "interest_calculator \<Rightarrow> frame \<Rightarrow> error + frame" where
  "calculate_working_days self df =
     (let df = setitem_scalar ''Due days'' (Num (of_int (due_days_threshold self))) df
      in bind_err (getitem ''Age'' df) (\<lambda>age.
         bind_err (ser_sub_scalar age (of_int (due_days_threshold self))) (\<lambda>days_overdue.
         bind_err (ser_clip_upper days_overdue (of_int (max_working_days self))) (\<lambda>w.
         let df = setitem ''interst working'' w df
         in bind_err (getitem ''interst working'' df) (\<lambda>working.
            bind_err (ser_sub days_overdue working) (\<lambda>prev.
            Inr (setitem ''Previous interst'' prev df)))))))"

definition calculate_interest_percentage :: "interest_calculator \<Rightarrow> frame \<Rightarrow> error + frame" where
  "calculate_interest_percentage self df =
     (let df = setitem_scalar ''per day interst%'' (Num (per_day_rate self)) df
      in bind_err (getitem ''interst working'' df) (\<lambda>working.
         bind_err (getitem ''per day interst%'' df) (\<lambda>rate.
         bind_err (ser_mul working rate) (\<lambda>pct.
         Inr (setitem ''working interst in %'' pct df)))))"

definition calculate_interest_amount :: "frame \<Rightarrow> error + frame" where
  "calculate_interest_amount df =
     bind_err (getitem ''Balance Due'' df) (\<lambda>balance.
     bind_err (getitem ''working interst in %'' df) (\<lambda>pct.
     bind_err (ser_div_scalar pct 100) (\<lambda>frac.
     bind_err (ser_mul balance frac) (\<lambda>amount.
     let df = setitem ''interest amount'' amount df
     in bind_err (getitem ''interest amount'' df) (\<lambda>amount.
        bind_err (ser_round 4 amount) (\<lambda>rounded.
        Inr (setitem ''interest amount'' rounded df)))))))"

definition final_columns :: "string list" where
  "final_columns =
     [''Region'', ''Area Name'', ''Market'', ''Customer Name'', ''Customer Number'', ''DATE'',
      ''Transaction#'', ''Type'', ''Status'', ''Due Date'', ''Amount'', ''Balance Due'', ''Age'',
      ''Due days'', ''Previous interst'', ''interst working'', ''per day interst%'',
      ''working interst in %'', ''interest amount'', ''Sale Person'']"

definition InterestCalculator_select_final_columns :: "frame \<Rightarrow> error + frame" where
  "InterestCalculator_select_final_columns df = select_columns final_columns df"

definition calculate_interest :: "interest_calculator \<Rightarrow> frame \<Rightarrow> error + frame" where
  "calculate_interest self df =
     bind_err (filter_by_age self df) (\<lambda>df.
     bind_err (sort_values ''Customer Name'' df) (\<lambda>df.
     bind_err (calculate_working_days self df) (\<lambda>df.
     bind_err (calculate_interest_percentage self df) (\<lambda>df.
     bind_err (calculate_interest_amount df) (\<lambda>df.
     InterestCalculator_select_final_columns df)))))"

section \<open>\<open>modules/debit_note_generator.py\<close>: class \<open>DebitNoteGenerator\<close>\<close>

record debit_note_generator =
  invoice_prefix :: string
  starting_number :: int

text \<open>\<open>__init__\<close> takes the prefix and the starting number and stores them; it has no other
  parameter and no other statement.\<close>

definition DebitNoteGenerator_init :: "string \<Rightarrow> int \<Rightarrow> debit_note_generator" where
  "DebitNoteGenerator_init prefix start = \<lparr>invoice_prefix = prefix, starting_number = start\<rparr>"

definition DebitNoteGenerator_default :: debit_note_generator where
  "DebitNoteGenerator_default = DebitNoteGenerator_init ''CDN/SA-'' 311"

definition group_columns :: "string list" where
  "group_columns =
     [''Customer Number'', ''Customer Name'', ''Area Name'', ''Region'', ''Sales person'']"

definition group_by_customer :: "frame \<Rightarrow> error + frame" where
  "group_by_customer df =
     bind_err (groupby_sum group_columns ''interest amount'' df) (\<lambda>df_grouped.
     Inr (rename_column ''interest amount'' ''Total'' df_grouped))"

definition round_totals :: "frame \<Rightarrow> error + frame" where
  "round_totals df =
     bind_err (getitem ''Total'' df) (\<lambda>total.
     bind_err (ser_round 0 total) (\<lambda>rounded.
     bind_err (astype_int rounded) (\<lambda>ints.
     Inr (setitem ''Total'' ints df))))"

text \<open>The description literal of \<open>add_debit_note_fields\<close>, written three times in the source.\<close>

definition od_charges :: string where
  "od_charges = ''OD Charges Dec-2025''"

text \<open>\<open>df[c] = df['Total']\<close>.\<close>

definition copy_total :: "string \<Rightarrow> frame \<Rightarrow> error + frame" where
  "copy_total c df = bind_err (getitem ''Total'' df) (\<lambda>total. Inr (setitem c total df))"

text \<open>\<open>add_debit_note_fields\<close>; \<open>today\<close> is the value of
  \<open>datetime.now().strftime('%Y-%m-%d')\<close> at the call.\<close>

definition add_debit_note_fields :: "string \<Rightarrow> frame \<Rightarrow> error + frame" where
  "add_debit_note_fields today df =
     (let df = setitem_scalar ''Description'' (Str od_charges) df;
          df = setitem_scalar ''Invoice Status'' (Str ''Open'') df;
          df = setitem_scalar ''Accounts Receivable'' (Str ''Accounts Receivable'') df;
          df = setitem_scalar ''Is Inclusive Tax'' (Bool True) df
      in bind_err (copy_total ''SubTotal'' df) (\<lambda>df.
         bind_err (copy_total ''Balance'' df) (\<lambda>df.
         let df = setitem_scalar ''Notes'' (Str od_charges) df;
             df = setitem_scalar ''Invoice Type'' (Str ''Debit Notes'') df;
             df = setitem_scalar ''Location Name'' (Str ''Head Office'') df;
             df = setitem_scalar ''Item Desc'' (Str od_charges) df;
             df = setitem_scalar ''Quantity'' (Num 1) df
         in bind_err (copy_total ''Item Total'' df) (\<lambda>df.
            bind_err (copy_total ''Item Price'' df) (\<lambda>df.
            let df = setitem_scalar ''Item Type'' (Str ''service'') df;
                df = setitem_scalar ''Reason for issuing Debit Note'' (Str ''Others'') df;
                df = setitem_scalar ''Account'' (Str ''OD CHARGES'') df;
                df = setitem_scalar ''Line Item Location Name'' (Str ''HEAD OFFICE'') df;
                df = setitem_scalar ''Supply Type'' (Str ''Out of Scope'') df;
                df = setitem_scalar ''CF.Bill Type'' (Str ''Credit'') df;
                df = setitem_scalar ''Invoice Date'' (Str today) df;
                df = setitem_scalar ''Invoice No.'' (Str []) df
            in Inr df)))))"

definition invoice_number :: "debit_note_generator \<Rightarrow> nat \<Rightarrow> string" where
  "invoice_number self i = invoice_prefix self @ zfill 6 (str_int (int i + starting_number self))"

definition generate_invoice_numbers :: "debit_note_generator \<Rightarrow> frame \<Rightarrow> frame" where
  "generate_invoice_numbers self df =
     setitem ''Invoice No.''
       (map (\<lambda>i. Str (invoice_number self i)) [0..<length (rows df)]) df"

definition rename_customer_column :: "frame \<Rightarrow> frame" where
  "rename_customer_column df = rename_column ''Customer Number'' ''Customer ID'' df"

definition cols_to_keep :: "string list" where
  "cols_to_keep =
     [''Invoice Date'', ''Invoice No.'', ''Invoice Status'', ''Accounts Receivable'',
      ''Customer ID'', ''Customer Name'', ''Is Inclusive Tax'', ''SubTotal'', ''Total'',
      ''Balance'', ''Notes'', ''Invoice Type'', ''Location Name'', ''Item Desc'',
      ''Quantity'', ''Item Total'', ''Item Price'', ''Sales person'', ''Item Type'',
      ''Reason for issuing Debit Note'', ''Account'', ''Line Item Location Name'',
      ''Supply Type'', ''CF.Bill Type'']"

definition DebitNoteGenerator_select_final_columns :: "frame \<Rightarrow> error + frame" where
  "DebitNoteGenerator_select_final_columns df =
     bind_err (select_columns cols_to_keep df) (\<lambda>df_final.
     sort_values ''Customer ID'' df_final)"

definition generate_debit_notes :: "debit_note_generator \<Rightarrow> string \<Rightarrow> frame \<Rightarrow> error + frame" where
  "generate_debit_notes self today df =
     bind_err (group_by_customer df) (\<lambda>df.
     bind_err (round_totals df) (\<lambda>df.
     bind_err (add_debit_note_fields today df) (\<lambda>df.
     let df = generate_invoice_numbers self df;
         df = rename_customer_column df
     in DebitNoteGenerator_select_final_columns df)))"

section \<open>The operations read row by row\<close>

text \<open>
  Auxiliary functions for the proofs: the value a cell contributes to arithmetic, the
  cell-wise results of the series operations when no \<open>TypeError\<close> is raised, and the
  cells of one column of a frame.
\<close>

fun is_text :: "cell \<Rightarrow> bool" where
  "is_text (Str s) = True"
| "is_text v = False"

fun value_of :: "cell \<Rightarrow> rat option" where
  "value_of (Num r) = Some r"
| "value_of (Bool b) = Some (of_bool b)"
| "value_of v = None"

definition on_value :: "(rat \<Rightarrow> rat) \<Rightarrow> cell \<Rightarrow> cell" where
  "on_value f v = (case value_of v of None \<Rightarrow> NaN | Some x \<Rightarrow> Num (f x))"

definition on_values :: "(rat \<Rightarrow> rat \<Rightarrow> rat) \<Rightarrow> cell \<Rightarrow> cell \<Rightarrow> cell" where
  "on_values f v w =
     (case (value_of v, value_of w) of (Some x, Some y) \<Rightarrow> Num (f x y) | _ \<Rightarrow> NaN)"

definition exceeds :: "rat \<Rightarrow> cell \<Rightarrow> bool" where
  "exceeds k v = (case value_of v of None \<Rightarrow> False | Some x \<Rightarrow> k < x)"

definition column :: "string \<Rightarrow> frame \<Rightarrow> series" where
  "column c df = map (\<lambda>r. r c) (rows df)"

text \<open>The three derivation steps of \<open>calculate_interest\<close> on one row.\<close>

definition working_days_row :: "interest_calculator \<Rightarrow> row \<Rightarrow> row" where
  "working_days_row self r =
     (let days_overdue = on_value (\<lambda>x. x - of_int (due_days_threshold self)) (r ''Age'');
          working = on_value (\<lambda>x. min x (of_int (max_working_days self))) days_overdue
      in r(''Due days'' := Num (of_int (due_days_threshold self)),
           ''interst working'' := working,
           ''Previous interst'' := on_values (\<lambda>x y. x - y) days_overdue working))"

definition percentage_row :: "interest_calculator \<Rightarrow> row \<Rightarrow> row" where
  "percentage_row self r =
     r(''per day interst%'' := Num (per_day_rate self),
       ''working interst in %'' :=
          on_values (\<lambda>x y. x * y) (r ''interst working'') (Num (per_day_rate self)))"

definition amount_row :: "row \<Rightarrow> row" where
  "amount_row r =
     r(''interest amount'' :=
         on_value (round_to 4)
           (on_values (\<lambda>x y. x * y) (r ''Balance Due'')
              (on_value (\<lambda>x. x / 100) (r ''working interst in %''))))"

definition interest_row :: "interest_calculator \<Rightarrow> row \<Rightarrow> row" where
  "interest_row self r =
     keep final_columns (amount_row (percentage_row self (working_days_row self r)))"

text \<open>The rows \<open>calculate_interest\<close> keeps, in the order it puts them.\<close>

definition retained :: "interest_calculator \<Rightarrow> frame \<Rightarrow> row list" where
  "retained self df =
     sort_key (\<lambda>r. cell_key (r ''Customer Name''))
       (filter (\<lambda>r. exceeds (of_int (due_days_threshold self)) (r ''Age'')) (rows df))"

text \<open>The columns of the cleaned table that \<open>calculate_interest\<close> reads or passes on.\<close>

definition input_columns :: "string list" where
  "input_columns =
     [''Region'', ''Area Name'', ''Market'', ''Customer Name'', ''Customer Number'', ''DATE'',
      ''Transaction#'', ''Type'', ''Status'', ''Due Date'', ''Amount'', ''Balance Due'', ''Age'',
      ''Sale Person'']"

text \<open>The steps of \<open>generate_debit_notes\<close> on one row: the sum of a group, the grouped
  rows, the rounded total, the fields added, and the finished debit-note row with its
  invoice number.\<close>

definition group_sum :: "string list \<Rightarrow> string \<Rightarrow> row list \<Rightarrow> cell list \<Rightarrow> rat" where
  "group_sum keys val rs k =
     sum_list (map (\<lambda>r. case value_of (r val) of None \<Rightarrow> 0 | Some x \<Rightarrow> x)
                 (filter (\<lambda>r. map r keys = k) rs))"

definition group_row :: "frame \<Rightarrow> cell list \<Rightarrow> row" where
  "group_row df k =
     (row_of (zip group_columns k))
       (''Total'' := Num (group_sum group_columns ''interest amount''
                           (complete_rows group_columns (rows df)) k))"

definition rounded_total :: "cell \<Rightarrow> cell" where
  "rounded_total v = on_value (\<lambda>x. of_int (round_half_even x)) v"

definition debit_fields :: "string \<Rightarrow> row \<Rightarrow> row" where
  "debit_fields today r =
     r(''Description'' := Str od_charges,
       ''Invoice Status'' := Str ''Open'',
       ''Accounts Receivable'' := Str ''Accounts Receivable'',
       ''Is Inclusive Tax'' := Bool True,
       ''SubTotal'' := r ''Total'',
       ''Balance'' := r ''Total'',
       ''Notes'' := Str od_charges,
       ''Invoice Type'' := Str ''Debit Notes'',
       ''Location Name'' := Str ''Head Office'',
       ''Item Desc'' := Str od_charges,
       ''Quantity'' := Num 1,
       ''Item Total'' := r ''Total'',
       ''Item Price'' := r ''Total'',
       ''Item Type'' := Str ''service'',
       ''Reason for issuing Debit Note'' := Str ''Others'',
       ''Account'' := Str ''OD CHARGES'',
       ''Line Item Location Name'' := Str ''HEAD OFFICE'',
       ''Supply Type'' := Str ''Out of Scope'',
       ''CF.Bill Type'' := Str ''Credit'',
       ''Invoice Date'' := Str today,
       ''Invoice No.'' := Str [])"

definition debit_field_names :: "string list" where
  "debit_field_names =
     [''Description'', ''Invoice Status'', ''Accounts Receivable'', ''Is Inclusive Tax'',
      ''SubTotal'', ''Balance'', ''Notes'', ''Invoice Type'', ''Location Name'', ''Item Desc'',
      ''Quantity'', ''Item Total'', ''Item Price'', ''Item Type'',
      ''Reason for issuing Debit Note'', ''Account'', ''Line Item Location Name'',
      ''Supply Type'', ''CF.Bill Type'', ''Invoice Date'', ''Invoice No.'']"

definition note_row :: "debit_note_generator \<Rightarrow> string \<Rightarrow> nat \<Rightarrow> row \<Rightarrow> row" where
  "note_row self today i g =
     keep cols_to_keep
       (rename_row ''Customer Number'' ''Customer ID''
          ((debit_fields today (g(''Total'' := rounded_total (g ''Total''))))
             (''Invoice No.'' := Str (invoice_number self i))))"

text \<open>The columns \<open>generate_debit_notes\<close> reads.\<close>

definition interest_columns :: "string list" where
  "interest_columns = group_columns @ [''interest amount'']"

text \<open>The number written after the prefix of an invoice number: an optional sign and
  decimal digits, leading zeros allowed.\<close>

definition int_of_text :: "string \<Rightarrow> int" where
  "int_of_text s =
     (case split_sign s of
        (neg, ds) \<Rightarrow> if neg then - int (nat_of_digits ds) else int (nat_of_digits ds))"

definition invoice_counter :: "debit_note_generator \<Rightarrow> cell \<Rightarrow> int" where
  "invoice_counter self v = int_of_text (drop (length (invoice_prefix self)) (astype_str v))"

section \<open>Example tables\<close>

text \<open>A cleaned ledger row with the cells the calculation reads; the other cells are empty.\<close>

definition ledger_row :: "string \<Rightarrow> string \<Rightarrow> cell \<Rightarrow> cell \<Rightarrow> row" where
  "ledger_row name number balance age =
     row_of [(''Customer Name'', Str name), (''Customer Number'', Str number),
             (''Type'', Str ''Invoice''), (''Status'', Str ''Overdue''),
             (''Balance Due'', balance), (''Age'', age), (''Sale Person'', Str ''S1'')]"

definition ledger :: "row list \<Rightarrow> frame" where
  "ledger rs = \<lparr>columns = input_columns, rows = rs\<rparr>"

text \<open>Ages 150 (at the threshold), 151 and 200 under the default configuration.\<close>

definition ledger_ages :: frame where
  "ledger_ages =
     ledger [ledger_row ''Asha Traders'' ''C001'' (Num 5000) (Num 150),
             ledger_row ''Bharat Stores'' ''C002'' (Num 10000) (Num 200),
             ledger_row ''Chand Bros'' ''C003'' (Num 2500) (Num 151)]"


definition observe :: "string \<Rightarrow> error + frame \<Rightarrow> error + series" where
  "observe c res = (case res of Inl e \<Rightarrow> Inl e | Inr df \<Rightarrow> Inr (column c df))"

text \<open>A raw table with the text columns the cleaner normalises.\<close>

definition raw_row :: "string \<Rightarrow> string \<Rightarrow> string \<Rightarrow> string \<Rightarrow> row" where
  "raw_row type amount balance age =
     row_of [(''Type'', Str type), (''Status'', Str ''Overdue''), (''Amount'', Str amount),
             (''Balance Due'', Str balance), (''Age'', Str age)]"

definition raw_table :: "row list \<Rightarrow> frame" where
  "raw_table rs =
     \<lparr>columns = [''Type'', ''Status'', ''Amount'', ''Balance Due'', ''Age''], rows = rs\<rparr>"


text \<open>Amount texts: with the rupee sign, with the literal of the source, not a number,
  empty.\<close>

definition ledger_text_amounts :: frame where
  "ledger_text_amounts =
     raw_table [raw_row ''Invoice'' (rupee @ ''12,345.00'') ''100'' ''200 Days'',
                raw_row ''Invoice'' (rupee_literal @ ''12,345.00'') ''100'' ''200 Days'',
                raw_row ''Invoice'' ''abc'' ''100'' ''200 Days'',
                raw_row ''Invoice'' [] ''100'' ''200 Days'']"

text \<open>An interest table under the column names \<open>group_by_customer\<close> reads: customer
  \<open>C001\<close> with two salespeople (one of them on two rows) and customer \<open>C002\<close>.\<close>

definition interest_line :: "string \<Rightarrow> string \<Rightarrow> string \<Rightarrow> rat \<Rightarrow> row" where
  "interest_line number name salesperson amount =
     row_of [(''Customer Number'', Str number), (''Customer Name'', Str name),
             (''Area Name'', Str ''North''), (''Region'', Str ''R1''),
             (''Sales person'', Str salesperson), (''interest amount'', Num amount)]"

definition interest_lines :: frame where
  "interest_lines =
     \<lparr>columns = interest_columns,
      rows = [interest_line ''C002'' ''Bharat Stores'' ''Ravi'' (373 / 2),
              interest_line ''C001'' ''Asha Traders'' ''Sunil'' 100,
              interest_line ''C001'' ''Asha Traders'' ''Ravi'' (175 / 2),
              interest_line ''C001'' ''Asha Traders'' ''Sunil'' 100]\<rparr>"

text \<open>A cleaned ledger in which one customer has two salespeople; the column is named
  \<open>Sale Person\<close>, as \<open>calculate_interest\<close> requires.\<close>

definition ledger_two_salespeople :: frame where
  "ledger_two_salespeople =
     ledger [(ledger_row ''Asha Traders'' ''C001'' (Num 10000) (Num 200))
               (''Sale Person'' := Str ''Ravi''),
             (ledger_row ''Asha Traders'' ''C001'' (Num 5000) (Num 210))
               (''Sale Person'' := Str ''Sunil'')]"

text \<open>A cleaned ledger with no row older than the default threshold, and an interest table
  with no rows.\<close>

definition ledger_young :: frame where
  "ledger_young =
     ledger [ledger_row ''Asha Traders'' ''C001'' (Num 5000) (Num 150),
             ledger_row ''Bharat Stores'' ''C002'' (Num 10000) (Num 30),
             ledger_row ''Chand Bros'' ''C003'' (Num 2500) NaN]"

definition interest_none :: frame where
  "interest_none = \<lparr>columns = interest_columns, rows = []\<rparr>"

section \<open>Properties of the library model\<close>

lemma bind_err_Inr [simp]: "bind_err (Inr x) f = f x"
  by (simp add: bind_err_def)

lemma bind_err_Inl [simp]: "bind_err (Inl e) f = Inl e"
  by (simp add: bind_err_def)

lemma traverse_guarded:
  "traverse (\<lambda>x. if bad x then Inl e else Inr (g x)) xs =
     (if \<exists>x\<in>set xs. bad x then Inl e else Inr (map g xs))"
  by (induction xs) auto

lemma traverse_map: "traverse f (map h xs) = traverse (\<lambda>x. f (h x)) xs"
  by (induction xs) auto

lemma map2_same: "map2 h xs (map g xs) = map (\<lambda>x. h x (g x)) xs"
  by (induction xs) auto

lemma map2_maps: "map2 h (map a xs) (map g xs) = map (\<lambda>x. h (a x) (g x)) xs"
  by (induction xs) auto

lemma zip_maps: "zip (map g xs) (map h xs) = map (\<lambda>x. (g x, h x)) xs"
  by (induction xs) auto

lemma mask_same: "map fst (filter snd (zip xs (map p xs))) = filter p xs"
  by (induction xs) auto

lemma num_eq: "num v = (if is_text v then Inl TypeError else Inr (value_of v))"
  by (cases v) auto

lemma lift1_eq: "lift1 f v = (if is_text v then Inl TypeError else Inr (on_value f v))"
  by (simp add: lift1_def num_eq on_value_def)

lemma lift2_eq:
  "lift2 f v w = (if is_text v \<or> is_text w then Inl TypeError else Inr (on_values f v w))"
  by (simp add: lift2_def num_eq on_values_def)

lemma is_text_on_value [simp]: "\<not> is_text (on_value f v)"
  by (simp add: on_value_def split: option.splits)

lemma is_text_on_values [simp]: "\<not> is_text (on_values f v w)"
  by (simp add: on_values_def split: option.splits)

text \<open>The series operations on a column of a list of rows.\<close>

lemma ser_gt_scalar_rows:
  "ser_gt_scalar (map g rs) k =
     (if \<exists>r\<in>set rs. is_text (g r) then Inl TypeError
      else Inr (map (\<lambda>r. exceeds k (g r)) rs))"
  by (induction rs) (auto simp: ser_gt_scalar_def num_eq exceeds_def)

lemma ser_unary_rows:
  "traverse (lift1 f) (map g rs) =
     (if \<exists>r\<in>set rs. is_text (g r) then Inl TypeError
      else Inr (map (\<lambda>r. on_value f (g r)) rs))"
  by (simp add: traverse_map lift1_eq traverse_guarded [where bad = "\<lambda>r. is_text (g r)"])

lemma ser_binary_rows:
  "traverse (\<lambda>(v, w). lift2 f v w) (map (\<lambda>r. (g r, h r)) rs) =
     (if \<exists>r\<in>set rs. is_text (g r) \<or> is_text (h r) then Inl TypeError
      else Inr (map (\<lambda>r. on_values f (g r) (h r)) rs))"
  by (simp add: traverse_map lift2_eq
      traverse_guarded [where bad = "\<lambda>r. is_text (g r) \<or> is_text (h r)"])

lemma filter_by_age_eq:
  "filter_by_age self df =
     (if ''Age'' \<notin> set (columns df) then Inl (KeyError ''Age'')
      else if \<exists>r\<in>set (rows df). is_text (r ''Age'') then Inl TypeError
      else Inr (df\<lparr>rows := filter (\<lambda>r. exceeds (of_int (due_days_threshold self)) (r ''Age''))
                                (rows df)\<rparr>))"
  by (simp add: filter_by_age_def getitem_def ser_gt_scalar_rows mask_rows_def mask_same)

lemma add_column_mem [simp]: "c \<in> set (add_column d cs) \<longleftrightarrow> c = d \<or> c \<in> set cs"
  by (auto simp: add_column_def)

lemma calculate_working_days_eq:
  "calculate_working_days self df =
     (if ''Age'' \<notin> set (columns df) then Inl (KeyError ''Age'')
      else if \<exists>r\<in>set (rows df). is_text (r ''Age'') then Inl TypeError
      else Inr \<lparr>columns = add_column ''Previous interst''
                   (add_column ''interst working'' (add_column ''Due days'' (columns df))),
                rows = map (working_days_row self) (rows df)\<rparr>)"
  by (simp add: calculate_working_days_def Let_def getitem_def setitem_scalar_def setitem_def
      ser_sub_scalar_def ser_clip_upper_def ser_sub_def ser_unary_rows ser_binary_rows
      map2_same map2_maps zip_maps o_def working_days_row_def)

lemma calculate_interest_percentage_eq:
  "calculate_interest_percentage self df =
     (if ''interst working'' \<notin> set (columns df) then Inl (KeyError ''interst working'')
      else if \<exists>r\<in>set (rows df). is_text (r ''interst working'') then Inl TypeError
      else Inr \<lparr>columns = add_column ''working interst in %''
                   (add_column ''per day interst%'' (columns df)),
                rows = map (percentage_row self) (rows df)\<rparr>)"
  by (simp add: calculate_interest_percentage_def Let_def getitem_def setitem_scalar_def
      setitem_def ser_mul_def ser_binary_rows map2_same map2_maps zip_maps o_def percentage_row_def)

lemma calculate_interest_amount_eq:
  "calculate_interest_amount df =
     (if ''Balance Due'' \<notin> set (columns df) then Inl (KeyError ''Balance Due'')
      else if ''working interst in %'' \<notin> set (columns df)
        then Inl (KeyError ''working interst in %'')
      else if \<exists>r\<in>set (rows df). is_text (r ''working interst in %'') then Inl TypeError
      else if \<exists>r\<in>set (rows df). is_text (r ''Balance Due'') then Inl TypeError
      else Inr \<lparr>columns = add_column ''interest amount'' (columns df),
                rows = map amount_row (rows df)\<rparr>)"
  by (simp add: calculate_interest_amount_def Let_def getitem_def setitem_def
      ser_mul_def ser_div_scalar_def ser_round_def ser_unary_rows ser_binary_rows
      map2_same map2_maps zip_maps o_def amount_row_def add_column_def)

section \<open>Properties of the cleaner\<close>

lemma setitem_map:
  "setitem c (map g xs) \<lparr>columns = C, rows = map h xs\<rparr> =
     \<lparr>columns = add_column c C, rows = map (\<lambda>x. (h x)(c := g x)) xs\<rparr>"
  by (simp add: setitem_def map2_maps)

lemma setitem_rows:
  "setitem c (map g (rows df)) df =
     \<lparr>columns = add_column c (columns df), rows = map (\<lambda>r. r(c := g r)) (rows df)\<rparr>"
  by (simp add: setitem_def map2_same)


lemma clean_currency_column_eq:
  "clean_currency_column df c fill =
     (if c \<notin> set (columns df) then Inl (KeyError c)
      else Inr \<lparr>columns = columns df,
                rows = map (\<lambda>r. r(c := fillna fill (to_numeric_cell
                         (Str (str_strip (str_replace '','' []
                            (str_replace rupee_literal [] (astype_str (r c)))))))))
                       (rows df)\<rparr>)"
  by (simp add: clean_currency_column_def getitem_def Let_def setitem_rows setitem_map o_def
      add_column_def)


lemma mod10_cases:
  "d mod 10 = (0::nat) \<or> d mod 10 = 1 \<or> d mod 10 = 2 \<or> d mod 10 = 3 \<or> d mod 10 = 4 \<or>
   d mod 10 = 5 \<or> d mod 10 = 6 \<or> d mod 10 = 7 \<or> d mod 10 = 8 \<or> d mod 10 = 9"
  by arith

lemma is_digit_digit_char: "is_digit (digit_char d)"
  using mod10_cases [of d] by (auto simp: is_digit_def digit_char_def)

lemma digit_val_digit_char: "digit_val (digit_char d) = d mod 10"
  using mod10_cases [of d] by (auto simp: digit_val_def digit_char_def)

lemma str_nat_digits: "list_all is_digit (str_nat n) \<and> str_nat n \<noteq> []"
  by (induction n rule: str_nat.induct) (subst (1 2) str_nat.simps, simp add: is_digit_digit_char)

lemma nat_of_digits_snoc: "nat_of_digits (ds @ [c]) = 10 * nat_of_digits ds + digit_val c"
  by (simp add: nat_of_digits_def)

lemma nat_of_digits_str_nat: "nat_of_digits (str_nat n) = n"
proof (induction n rule: str_nat.induct)
  case (1 n)
  show ?case
  proof (cases "n < 10")
    case True
    then show ?thesis
      by (subst str_nat.simps) (simp add: nat_of_digits_def digit_val_digit_char)
  next
    case False
    with 1 show ?thesis
      by (subst str_nat.simps) (simp add: nat_of_digits_snoc digit_val_digit_char)
  qed
qed


lemma digit_not_mark: "is_digit c \<Longrightarrow> \<not> is_exp_mark c \<and> c \<noteq> CHR ''-'' \<and> c \<noteq> CHR ''+'' \<and> c \<noteq> CHR '' ''"
  by (auto simp: is_digit_def is_exp_mark_def)








text \<open>
  Claim C5 on the code.  \<open>clean_currency_column\<close> removes the three-character literal
  U+00E2 U+201A U+00B9 and the commas, not the rupee sign U+20B9: an amount written with the
  rupee sign, \<open>12,345.00\<close> after it, does not parse and becomes 0, while the same amount after
  the three-character literal becomes 12345.  The texts \<open>abc\<close> and the empty text become 0.
\<close>

theorem clean_currency_column_rupee:
  "observe ''Amount'' (clean_currency_column ledger_text_amounts ''Amount'' 0)
     = Inr [Num 0, Num 12345, Num 0, Num 0]"
  by (simp add: clean_currency_column_eq observe_def column_def ledger_text_amounts_def
      raw_table_def raw_row_def row_of_def rupee_def rupee_literal_def
      str_replace.simps str_strip_def is_space_def
      to_numeric_def split_sign_def parse_mantissa_def is_exp_mark_def is_digit_def
      nat_of_digits_def digit_val_def)

section \<open>Properties of the interest calculator\<close>

lemma select_columns_subset:
  "set cs \<subseteq> set (columns df) \<Longrightarrow>
     select_columns cs df = Inr \<lparr>columns = cs, rows = map (keep cs) (rows df)\<rparr>"
  by (auto simp: select_columns_def find_None_iff split: option.splits)

lemma select_columns_Inr:
  "select_columns cs df = Inr out \<Longrightarrow>
     set cs \<subseteq> set (columns df) \<and> out = \<lparr>columns = cs, rows = map (keep cs) (rows df)\<rparr>"
  by (auto simp: select_columns_def find_None_iff split: option.splits)

lemma calculate_interest_Inr:
  assumes "calculate_interest self df = Inr out"
  shows "out = \<lparr>columns = final_columns, rows = map (interest_row self) (retained self df)\<rparr>"
  using assms
  by (auto simp: calculate_interest_def filter_by_age_eq sort_values_def
      calculate_working_days_eq calculate_interest_percentage_eq calculate_interest_amount_eq
      InterestCalculator_select_final_columns_def interest_row_def retained_def o_def
      split: if_splits dest!: select_columns_Inr)

lemma calculate_interest_success:
  assumes "set input_columns \<subseteq> set (columns df)"
    and "\<forall>r\<in>set (rows df). \<not> is_text (r ''Age'') \<and> \<not> is_text (r ''Balance Due'')"
  shows "calculate_interest self df =
           Inr \<lparr>columns = final_columns, rows = map (interest_row self) (retained self df)\<rparr>"
proof -
  have cols: "''Age'' \<in> set (columns df)" "''Customer Name'' \<in> set (columns df)"
    "''Balance Due'' \<in> set (columns df)"
    using assms(1) by (auto simp: input_columns_def)
  have wd: "\<not> is_text (working_days_row self r ''interst working'')" for r
    by (simp add: working_days_row_def Let_def)
  have pc: "\<not> is_text (percentage_row self r ''working interst in %'')" for r
    by (simp add: percentage_row_def)
  have bd: "percentage_row self (working_days_row self r) ''Balance Due'' = r ''Balance Due''" for r
    by (simp add: percentage_row_def working_days_row_def Let_def)
  let ?C = "add_column ''interest amount''
      (add_column ''working interst in %'' (add_column ''per day interst%''
      (add_column ''Previous interst'' (add_column ''interst working''
      (add_column ''Due days'' (columns df))))))"
  have sub: "set final_columns \<subseteq> set ?C"
    using assms(1) by (auto simp: final_columns_def input_columns_def)
  have sel: "select_columns final_columns \<lparr>columns = ?C, rows = R\<rparr> =
      Inr \<lparr>columns = final_columns, rows = map (keep final_columns) R\<rparr>" for R
    using select_columns_subset [of final_columns "\<lparr>columns = ?C, rows = R\<rparr>"] sub by simp
  show ?thesis
    using assms(2) cols
    by (simp add: calculate_interest_def filter_by_age_eq sort_values_def
      calculate_working_days_eq calculate_interest_percentage_eq calculate_interest_amount_eq
      InterestCalculator_select_final_columns_def sel wd pc bd
      interest_row_def retained_def o_def)
qed

lemma interest_row_input:
  "c \<in> set input_columns \<Longrightarrow> interest_row self r c = r c"
  by (auto simp: interest_row_def keep_def amount_row_def percentage_row_def working_days_row_def
      Let_def input_columns_def final_columns_def)

lemma interest_row_working:
  "interest_row self r ''interst working'' =
     on_value (\<lambda>x. min x (of_int (max_working_days self)))
       (on_value (\<lambda>x. x - of_int (due_days_threshold self)) (r ''Age''))"
  by (simp add: interest_row_def keep_def amount_row_def percentage_row_def working_days_row_def
      Let_def final_columns_def)

lemma interest_row_previous:
  "interest_row self r ''Previous interst'' =
     on_values (\<lambda>x y. x - y)
       (on_value (\<lambda>x. x - of_int (due_days_threshold self)) (r ''Age''))
       (interest_row self r ''interst working'')"
  by (simp add: interest_row_def keep_def amount_row_def percentage_row_def working_days_row_def
      Let_def final_columns_def)

lemma interest_row_due_days:
  "interest_row self r ''Due days'' = Num (of_int (due_days_threshold self))"
  by (simp add: interest_row_def keep_def amount_row_def percentage_row_def working_days_row_def
      Let_def final_columns_def)


lemma interest_row_percentage:
  "interest_row self r ''working interst in %'' =
     on_values (\<lambda>x y. x * y) (interest_row self r ''interst working'') (Num (per_day_rate self))"
  by (simp add: interest_row_def keep_def amount_row_def percentage_row_def working_days_row_def
      Let_def final_columns_def)

lemma interest_row_amount:
  "interest_row self r ''interest amount'' =
     on_value (round_to 4)
       (on_values (\<lambda>x y. x * y) (r ''Balance Due'')
          (on_value (\<lambda>x. x / 100) (interest_row self r ''working interst in %'')))"
  by (simp add: interest_row_def keep_def amount_row_def percentage_row_def working_days_row_def
      Let_def final_columns_def)











lemma ledger_zero_cap_run:
  "calculate_interest (InterestCalculator_init (6 / 100) 150 0) ledger_ages =
     Inr \<lparr>columns = final_columns,
          rows = map (interest_row (InterestCalculator_init (6 / 100) 150 0))
                   (retained (InterestCalculator_init (6 / 100) 150 0) ledger_ages)\<rparr>"
  by (rule calculate_interest_success)
     (simp_all add: ledger_ages_def ledger_def ledger_row_def row_of_def)

lemma retained_ledger_zero_cap:
  "retained (InterestCalculator_init (6 / 100) 150 0) ledger_ages =
     [ledger_row ''Bharat Stores'' ''C002'' (Num 10000) (Num 200),
      ledger_row ''Chand Bros'' ''C003'' (Num 2500) (Num 151)]"
  by (simp add: retained_def ledger_ages_def ledger_def ledger_row_def row_of_def exceeds_def
      InterestCalculator_init_def)





section \<open>Properties of the debit-note generator\<close>

lemma group_total_eq:
  "group_total val rs =
     (if \<exists>r\<in>set rs. is_text (r val) then Inl TypeError
      else Inr (Num (sum_list (map (\<lambda>r. case value_of (r val) of None \<Rightarrow> 0 | Some x \<Rightarrow> x) rs))))"
  by (simp add: group_total_def num_eq traverse_guarded [where bad = "\<lambda>r. is_text (r val)"] o_def)

lemma set_group_keys: "set (group_keys keys rs) = (\<lambda>r. map r keys) ` set rs"
  by (simp add: group_keys_def)

lemma find_missing_None: "find (\<lambda>c. c \<notin> set cs) ks = None \<longleftrightarrow> set ks \<subseteq> set cs"
  by (auto simp: find_None_iff)

lemma groupby_sum_eq:
  assumes "set keys \<subseteq> set (columns df)" and "val \<in> set (columns df)"
  shows "groupby_sum keys val df =
     (if \<exists>r\<in>set (complete_rows keys (rows df)). is_text (r val) then Inl TypeError
      else Inr \<lparr>columns = keys @ [val],
                rows = map (\<lambda>k. (row_of (zip keys k))
                                   (val := Num (group_sum keys val (complete_rows keys (rows df)) k)))
                         (group_keys keys (complete_rows keys (rows df)))\<rparr>)"
proof -
  let ?rs = "complete_rows keys (rows df)"
  define bad where "bad = (\<lambda>k. \<exists>r\<in>set (filter (\<lambda>r. map r keys = k) ?rs). is_text (r val))"
  define g where "g = (\<lambda>k. (row_of (zip keys k))(val := Num (group_sum keys val ?rs k)))"
  have step: "(\<lambda>k. bind_err (group_total val (filter (\<lambda>r. map r keys = k) ?rs))
                    (\<lambda>t. Inr ((row_of (zip keys k))(val := t)))) =
     (\<lambda>k. if bad k then Inl TypeError else Inr (g k))"
    by (rule ext) (auto simp: group_total_eq group_sum_def bad_def g_def)
  have bad: "(\<exists>k\<in>set (group_keys keys ?rs). bad k) \<longleftrightarrow> (\<exists>r\<in>set ?rs. is_text (r val))"
    by (auto simp: set_group_keys bad_def)
  have none: "find (\<lambda>c. c \<notin> set (columns df)) keys = None"
    using assms(1) by (simp add: find_missing_None)
  have "groupby_sum keys val df =
      bind_err (traverse (\<lambda>k. if bad k then Inl TypeError else Inr (g k)) (group_keys keys ?rs))
        (\<lambda>out. Inr \<lparr>columns = keys @ [val], rows = out\<rparr>)"
    unfolding groupby_sum_def none Let_def step using assms(2) by simp
  also have "\<dots> = (if \<exists>r\<in>set ?rs. is_text (r val) then Inl TypeError
      else Inr \<lparr>columns = keys @ [val], rows = map g (group_keys keys ?rs)\<rparr>)"
    unfolding traverse_guarded bad by simp
  finally show ?thesis
    by (simp add: g_def)
qed


lemma map_of_zip_absent: "c \<notin> set ks \<Longrightarrow> map_of (zip ks vs) c = None"
  by (induction ks arbitrary: vs) (auto simp: zip_Cons1 split: list.splits)

lemma row_of_zip_absent: "c \<notin> set ks \<Longrightarrow> row_of (zip ks vs) c = NaN"
  by (simp add: row_of_def map_of_zip_absent)

lemma rename_grouped:
  "rename_row ''interest amount'' ''Total''
     ((row_of (zip group_columns k))(''interest amount'' := t)) =
   (row_of (zip group_columns k))(''Total'' := t)"
proof -
  have "row_of (zip group_columns k) ''interest amount'' = NaN"
    by (rule row_of_zip_absent) (simp add: group_columns_def)
  then show ?thesis
    by (auto simp: rename_row_def fun_eq_iff)
qed

lemma group_by_customer_eq:
  assumes "set interest_columns \<subseteq> set (columns df)"
  shows "group_by_customer df =
     (if \<exists>r\<in>set (complete_rows group_columns (rows df)). is_text (r ''interest amount'')
      then Inl TypeError
      else Inr \<lparr>columns = group_columns @ [''Total''],
                rows = map (group_row df)
                         (group_keys group_columns (complete_rows group_columns (rows df)))\<rparr>)"
proof -
  have k: "set group_columns \<subseteq> set (columns df)" "''interest amount'' \<in> set (columns df)"
    using assms by (auto simp: interest_columns_def)
  have cols: "map (\<lambda>c. if c = ''interest amount'' then ''Total'' else c) group_columns = group_columns"
    by (simp add: group_columns_def)
  show ?thesis
    by (simp add: group_by_customer_def groupby_sum_eq [OF k] rename_column_def cols o_def
        rename_grouped group_row_def [abs_def])
qed

lemma group_by_customer_missing:
  "find (\<lambda>c. c \<notin> set (columns df)) group_columns = Some c \<Longrightarrow>
     group_by_customer df = Inl (KeyError c)"
  by (simp add: group_by_customer_def groupby_sum_def)

lemma trunc_of_int [simp]: "trunc (of_int n) = n"
  by (simp add: trunc_def)

lemma round_to_0: "round_to 0 x = of_int (round_half_even x)"
  by (simp add: round_to_def)

lemma astype_int_rounded:
  "astype_int_cell (on_value (round_to 0) v) =
     (if value_of v = None then Inl ValueError else Inr (rounded_total v))"
  by (cases v) (simp_all add: on_value_def rounded_total_def round_to_0)

lemma round_totals_eq:
  "round_totals df =
     (if ''Total'' \<notin> set (columns df) then Inl (KeyError ''Total'')
      else if \<exists>r\<in>set (rows df). is_text (r ''Total'') then Inl TypeError
      else if \<exists>r\<in>set (rows df). value_of (r ''Total'') = None then Inl ValueError
      else Inr \<lparr>columns = columns df,
                rows = map (\<lambda>r. r(''Total'' := rounded_total (r ''Total''))) (rows df)\<rparr>)"
proof -
  have r: "ser_round 0 (map (\<lambda>r. r ''Total'') (rows df)) =
      (if \<exists>r\<in>set (rows df). is_text (r ''Total'') then Inl TypeError
       else Inr (map (\<lambda>r. on_value (round_to 0) (r ''Total'')) (rows df)))"
    by (simp add: ser_round_def ser_unary_rows)
  have a: "astype_int (map (\<lambda>r. on_value (round_to 0) (r ''Total'')) (rows df)) =
      (if \<exists>r\<in>set (rows df). value_of (r ''Total'') = None then Inl ValueError
       else Inr (map (\<lambda>r. rounded_total (r ''Total'')) (rows df)))"
    unfolding astype_int_def traverse_map astype_int_rounded by (rule traverse_guarded)
  show ?thesis
    by (auto simp: round_totals_def getitem_def r a setitem_rows add_column_def)
qed

lemma copy_total_map:
  "''Total'' \<in> set C \<Longrightarrow>
   copy_total c \<lparr>columns = C, rows = map h xs\<rparr> =
     Inr \<lparr>columns = add_column c C, rows = map (\<lambda>x. (h x)(c := h x ''Total'')) xs\<rparr>"
  by (simp add: copy_total_def getitem_def setitem_map o_def)

lemma setitem_scalar_map:
  "setitem_scalar c v \<lparr>columns = C, rows = map h xs\<rparr> =
     \<lparr>columns = add_column c C, rows = map (\<lambda>x. (h x)(c := v)) xs\<rparr>"
  by (simp add: setitem_scalar_def o_def)

lemma add_debit_note_fields_eq:
  "add_debit_note_fields today df =
     (if ''Total'' \<notin> set (columns df) then Inl (KeyError ''Total'')
      else Inr \<lparr>columns = fold add_column debit_field_names (columns df),
                rows = map (debit_fields today) (rows df)\<rparr>)"
proof (cases "''Total'' \<in> set (columns df)")
  case False
  then show ?thesis
    by (simp add: add_debit_note_fields_def Let_def setitem_scalar_def copy_total_def getitem_def)
next
  case True
  have df: "df = \<lparr>columns = columns df, rows = map (\<lambda>r. r) (rows df)\<rparr>"
    by simp
  show ?thesis
    apply (subst df)
    apply (simp only: add_debit_note_fields_def Let_def setitem_scalar_map)
    apply (simp add: copy_total_map setitem_scalar_map True debit_field_names_def
        debit_fields_def [abs_def])
    done
qed


lemma map2_upt:
  "map2 h xs (map f [n..<n + length xs]) = map (\<lambda>(i, x). h x (f i)) (enumerate n xs)"
proof (induction xs arbitrary: n)
  case Nil
  show ?case by simp
next
  case (Cons x xs)
  have "[n..<n + length (x # xs)] = n # [Suc n..<Suc n + length xs]"
    by (simp add: upt_rec)
  then show ?case
    using Cons [of "Suc n"] by simp
qed

lemma enumerate_map: "enumerate n (map h xs) = map (\<lambda>(i, x). (i, h x)) (enumerate n xs)"
  by (induction xs arbitrary: n) auto

lemma generate_invoice_numbers_map:
  "generate_invoice_numbers self \<lparr>columns = C, rows = map h xs\<rparr> =
     \<lparr>columns = add_column ''Invoice No.'' C,
      rows = map (\<lambda>(i, x). (h x)(''Invoice No.'' := Str (invoice_number self i)))
               (enumerate 0 xs)\<rparr>"
proof -
  have "map2 (\<lambda>r v. r(''Invoice No.'' := v)) (map h xs)
          (map (\<lambda>i. Str (invoice_number self i)) [0..<0 + length (map h xs)]) =
        map (\<lambda>(i, r). r(''Invoice No.'' := Str (invoice_number self i))) (enumerate 0 (map h xs))"
    by (rule map2_upt)
  also have "\<dots> = map (\<lambda>(i, x). (h x)(''Invoice No.'' := Str (invoice_number self i)))
               (enumerate 0 xs)"
    by (simp add: enumerate_map o_def split_def)
  finally show ?thesis
    by (simp add: generate_invoice_numbers_def setitem_def)
qed

lemma rename_customer_column_map:
  "''Customer Number'' \<in> set C \<Longrightarrow>
   rename_customer_column \<lparr>columns = C, rows = map h xs\<rparr> =
     \<lparr>columns = map (\<lambda>c. if c = ''Customer Number'' then ''Customer ID'' else c) C,
      rows = map (\<lambda>x. rename_row ''Customer Number'' ''Customer ID'' (h x)) xs\<rparr>"
  by (simp add: rename_customer_column_def rename_column_def o_def)

lemma hd_le_lex:
  fixes a b :: "('a::linorder) list"
  shows "a \<le> b \<Longrightarrow> a \<noteq> [] \<Longrightarrow> b \<noteq> [] \<Longrightarrow> hd a \<le> hd b"
  by (cases a; cases b) auto

lemma sorted_heads:
  fixes ks :: "('a::linorder) list list"
  assumes "sorted ks" and "\<forall>k\<in>set ks. k \<noteq> []"
  shows "sorted (map hd ks)"
  using assms
  by (induction ks) (auto simp: hd_le_lex)

lemma group_keys_sorted: "sorted (map (map cell_key) (group_keys keys rs))"
  by (simp add: group_keys_def)

lemma group_keys_distinct: "distinct (group_keys keys rs)"
  by (simp add: group_keys_def)

lemma group_keys_length: "k \<in> set (group_keys keys rs) \<Longrightarrow> length k = length keys"
  by (auto simp: set_group_keys)

lemma note_row_customer_id:
  "k \<noteq> [] \<Longrightarrow> note_row self today i (group_row df k) ''Customer ID'' = hd k"
  by (cases k)
     (simp_all add: note_row_def keep_def cols_to_keep_def rename_row_def debit_fields_def
       group_row_def row_of_def group_columns_def)

lemma note_row_invoice_no:
  "note_row self today i g ''Invoice No.'' = Str (invoice_number self i)"
  by (simp add: note_row_def keep_def cols_to_keep_def rename_row_def)

lemma map_snd_enumerate: "map (\<lambda>p. f (snd p)) (enumerate n xs) = map f xs"
  by (induction xs arbitrary: n) auto

lemma note_rows_sorted:
  "sorted (map (\<lambda>r. cell_key (r ''Customer ID''))
     (map (\<lambda>(i, k). note_row self today i (group_row df k))
        (enumerate 0 (group_keys group_columns rs))))"
proof -
  let ?ks = "group_keys group_columns rs"
  have ne: "\<forall>k\<in>set ?ks. k \<noteq> []"
  proof
    fix k assume "k \<in> set ?ks"
    then have "length k = length group_columns" by (rule group_keys_length)
    then show "k \<noteq> []" by (auto simp: group_columns_def)
  qed
  have "map (\<lambda>r. cell_key (r ''Customer ID''))
     (map (\<lambda>(i, k). note_row self today i (group_row df k)) (enumerate 0 ?ks)) =
     map (\<lambda>p. cell_key (hd (snd p))) (enumerate 0 ?ks)"
    using ne by (auto simp: note_row_customer_id in_set_enumerate_eq)
  also have "\<dots> = map (\<lambda>k. cell_key (hd k)) ?ks"
    by (rule map_snd_enumerate)
  also have "\<dots> = map hd (map (map cell_key) ?ks)"
    using ne by (simp add: hd_map)
  finally show ?thesis
    using sorted_heads [OF group_keys_sorted [of group_columns rs]] ne by simp
qed

lemma generate_debit_notes_eq:
  assumes "set interest_columns \<subseteq> set (columns df)"
  shows "generate_debit_notes self today df =
     (if \<exists>r\<in>set (complete_rows group_columns (rows df)). is_text (r ''interest amount'')
      then Inl TypeError
      else Inr \<lparr>columns = cols_to_keep,
                rows = map (\<lambda>(i, k). note_row self today i (group_row df k))
                         (enumerate 0 (group_keys group_columns
                            (complete_rows group_columns (rows df))))\<rparr>)"
proof (cases "\<exists>r\<in>set (complete_rows group_columns (rows df)). is_text (r ''interest amount'')")
  case True
  then show ?thesis
    by (simp add: generate_debit_notes_def group_by_customer_eq [OF assms])
next
  case False
  let ?ks = "group_keys group_columns (complete_rows group_columns (rows df))"
  let ?C1 = "group_columns @ [''Total'']"
  let ?C2 = "fold add_column debit_field_names ?C1"
  let ?C3 = "add_column ''Invoice No.'' ?C2"
  let ?C4 = "map (\<lambda>c. if c = ''Customer Number'' then ''Customer ID'' else c) ?C3"
  have g: "group_by_customer df = Inr \<lparr>columns = ?C1, rows = map (group_row df) ?ks\<rparr>"
    using False by (simp add: group_by_customer_eq [OF assms])
  have r: "round_totals \<lparr>columns = ?C1, rows = map (group_row df) ?ks\<rparr> =
      Inr \<lparr>columns = ?C1,
           rows = map (\<lambda>k. (group_row df k)(''Total'' := rounded_total (group_row df k ''Total''))) ?ks\<rparr>"
    by (simp add: round_totals_eq group_row_def o_def)
  have f: "add_debit_note_fields today
      \<lparr>columns = ?C1,
       rows = map (\<lambda>k. (group_row df k)(''Total'' := rounded_total (group_row df k ''Total''))) ?ks\<rparr> =
      Inr \<lparr>columns = ?C2,
           rows = map (\<lambda>k. debit_fields today
                    ((group_row df k)(''Total'' := rounded_total (group_row df k ''Total'')))) ?ks\<rparr>"
    by (simp add: add_debit_note_fields_eq o_def)
  have c3: "''Customer Number'' \<in> set ?C3"
    by (simp add: group_columns_def debit_field_names_def)
  have sub: "set cols_to_keep \<subseteq> set ?C4"
    by (simp add: cols_to_keep_def group_columns_def debit_field_names_def add_column_def)
  have id: "''Customer ID'' \<in> set cols_to_keep"
    by (simp add: cols_to_keep_def)
  have sel: "select_columns cols_to_keep \<lparr>columns = ?C4, rows = R\<rparr> =
      Inr \<lparr>columns = cols_to_keep, rows = map (keep cols_to_keep) R\<rparr>" for R
    using select_columns_subset [of cols_to_keep "\<lparr>columns = ?C4, rows = R\<rparr>"] sub by simp
  have rows: "map (keep cols_to_keep)
      (map (\<lambda>x. rename_row ''Customer Number'' ''Customer ID''
         (case x of (i, k) \<Rightarrow>
            (debit_fields today ((group_row df k)(''Total'' := rounded_total (group_row df k ''Total''))))
              (''Invoice No.'' := Str (invoice_number self i))))
        (enumerate 0 ?ks)) =
     map (\<lambda>(i, k). note_row self today i (group_row df k)) (enumerate 0 ?ks)"
    by (simp add: note_row_def split_def)
  have srt: "sort_key (\<lambda>r. cell_key (r ''Customer ID''))
      (map (\<lambda>(i, k). note_row self today i (group_row df k)) (enumerate 0 ?ks)) =
      map (\<lambda>(i, k). note_row self today i (group_row df k)) (enumerate 0 ?ks)"
    by (rule sort_key_id_if_sorted) (rule note_rows_sorted)
  have "generate_debit_notes self today df =
      sort_values ''Customer ID''
        \<lparr>columns = cols_to_keep,
         rows = map (\<lambda>(i, k). note_row self today i (group_row df k)) (enumerate 0 ?ks)\<rparr>"
    unfolding generate_debit_notes_def g bind_err_Inr r f Let_def generate_invoice_numbers_map
      rename_customer_column_map [OF c3] DebitNoteGenerator_select_final_columns_def sel rows
    by (rule refl)
  then show ?thesis
    using False by (simp add: sort_values_def id srt)
qed

lemma interest_line_cells:
  "interest_line number name sp amount ''Customer Number'' = Str number"
  "interest_line number name sp amount ''Customer Name'' = Str name"
  "interest_line number name sp amount ''Sales person'' = Str sp"
  "interest_line number name sp amount ''interest amount'' = Num amount"
  "map (interest_line number name sp amount) group_columns =
     [Str number, Str name, Str ''North'', Str ''R1'', Str sp]"
  by (simp_all add: interest_line_def row_of_def group_columns_def)

lemma interest_lines_complete:
  "complete_rows group_columns (rows interest_lines) = rows interest_lines"
  by (simp add: complete_rows_def interest_lines_def interest_line_def row_of_def
      group_columns_def)

lemma interest_lines_keys:
  "group_keys group_columns (rows interest_lines) =
     [[Str ''C001'', Str ''Asha Traders'', Str ''North'', Str ''R1'', Str ''Ravi''],
      [Str ''C001'', Str ''Asha Traders'', Str ''North'', Str ''R1'', Str ''Sunil''],
      [Str ''C002'', Str ''Bharat Stores'', Str ''North'', Str ''R1'', Str ''Ravi'']]"
  by (simp add: group_keys_def interest_lines_def interest_line_cells)


lemma interest_lines_run:
  "generate_debit_notes self today interest_lines =
     Inr \<lparr>columns = cols_to_keep,
          rows = map (\<lambda>(i, k). note_row self today i (group_row interest_lines k))
                   (enumerate 0 (group_keys group_columns (rows interest_lines)))\<rparr>"
proof -
  have c: "set interest_columns \<subseteq> set (columns interest_lines)"
    by (simp add: interest_lines_def)
  have t: "\<not> (\<exists>r\<in>set (rows interest_lines). is_text (r ''interest amount''))"
    by (simp add: interest_lines_def interest_line_cells)
  show ?thesis
    unfolding generate_debit_notes_eq [OF c] interest_lines_complete using t by simp
qed








lemma nat_of_digits_zeros: "nat_of_digits (replicate k CHR ''0'' @ ds) = nat_of_digits ds"
proof -
  have "foldl (\<lambda>n c. 10 * n + digit_val c) 0 (replicate k CHR ''0'') = 0"
    by (induction k) (simp_all add: digit_val_def)
  then show ?thesis
    by (simp add: nat_of_digits_def)
qed

lemma split_sign_digits:
  "list_all is_digit ds \<Longrightarrow> split_sign (replicate k CHR ''0'' @ ds) = (False, replicate k CHR ''0'' @ ds)"
  by (cases k; cases ds) (auto simp: split_sign_def digit_not_mark)

lemma int_of_text_zfill: "int_of_text (zfill w (str_int n)) = n"
proof (cases "n < 0")
  case False
  let ?s = "str_nat (nat n)"
  have d: "list_all is_digit ?s" "?s \<noteq> []"
    using str_nat_digits [of "nat n"] by simp_all
  then obtain c cs where s: "?s = c # cs" by (cases ?s) auto
  with d have c: "c \<noteq> CHR ''+''" "c \<noteq> CHR ''-''" by (auto simp: digit_not_mark)
  have z: "zfill w ?s = replicate (w - length ?s) CHR ''0'' @ ?s"
    using c by (simp add: zfill_def s)
  show ?thesis
    using False
    by (simp add: str_int_def z int_of_text_def split_sign_digits [OF d(1)] nat_of_digits_zeros
        nat_of_digits_str_nat)
next
  case True
  let ?s = "str_nat (nat (- n))"
  have d: "list_all is_digit ?s"
    using str_nat_digits [of "nat (- n)"] by simp
  have z: "zfill w (CHR ''-'' # ?s) = CHR ''-'' # replicate (w - Suc (length ?s)) CHR ''0'' @ ?s"
    by (simp add: zfill_def)
  show ?thesis
    using True
    by (simp add: str_int_def z int_of_text_def split_sign_def nat_of_digits_zeros
        nat_of_digits_str_nat)
qed

lemma invoice_counter_number:
  "invoice_counter self (Str (invoice_number self i)) = int i + starting_number self"
  by (simp add: invoice_counter_def invoice_number_def int_of_text_zfill)




lemma generate_debit_notes_Inr:
  assumes "generate_debit_notes self today df = Inr out"
  shows "set interest_columns \<subseteq> set (columns df)"
    and "out = \<lparr>columns = cols_to_keep,
                 rows = map (\<lambda>(i, k). note_row self today i (group_row df k))
                          (enumerate 0 (group_keys group_columns
                             (complete_rows group_columns (rows df))))\<rparr>"
proof -
  show c: "set interest_columns \<subseteq> set (columns df)"
  proof (rule ccontr)
    assume "\<not> set interest_columns \<subseteq> set (columns df)"
    then have "\<not> set group_columns \<subseteq> set (columns df) \<or> ''interest amount'' \<notin> set (columns df)"
      by (auto simp: interest_columns_def)
    then have "\<exists>e. groupby_sum group_columns ''interest amount'' df = Inl e"
      by (auto simp: groupby_sum_def find_missing_None split: option.splits)
    then show False
      using assms by (auto simp: generate_debit_notes_def group_by_customer_def)
  qed
  show "out = \<lparr>columns = cols_to_keep,
                 rows = map (\<lambda>(i, k). note_row self today i (group_row df k))
                          (enumerate 0 (group_keys group_columns
                             (complete_rows group_columns (rows df))))\<rparr>"
    using assms by (simp add: generate_debit_notes_eq [OF c] split: if_splits)
qed


lemma note_row_literals:
  "note_row self today i g ''Notes'' = Str od_charges"
  "note_row self today i g ''Item Desc'' = Str od_charges"
  "note_row self today i g ''Description'' = NaN"
  by (simp_all add: note_row_def keep_def cols_to_keep_def rename_row_def debit_fields_def)








lemma five_cells:
  assumes "length k = length group_columns"
  obtains a b c d e where "k = [a, b, c, d, e]"
proof -
  from assms have "length k = Suc (Suc (Suc (Suc (Suc 0))))"
    by (simp add: group_columns_def)
  then show ?thesis
    using that by (auto simp: length_Suc_conv)
qed

lemma note_row_key_cells:
  assumes "length k = length group_columns"
  shows "note_row self today i (group_row df k) ''Sales person'' = k ! 4"
    and "note_row self today i (group_row df k) ''Customer ID'' = k ! 0"
proof -
  from assms obtain a b c d e where k: "k = [a, b, c, d, e]" by (rule five_cells)
  show "note_row self today i (group_row df k) ''Sales person'' = k ! 4"
    by (simp add: k note_row_def keep_def cols_to_keep_def rename_row_def debit_fields_def
      group_row_def row_of_def group_columns_def)
  show "note_row self today i (group_row df k) ''Customer ID'' = k ! 0"
    by (simp add: k note_row_def keep_def cols_to_keep_def rename_row_def debit_fields_def
      group_row_def row_of_def group_columns_def)
qed

lemma key_in_notes:
  assumes out: "generate_debit_notes self today df = Inr out"
    and r: "r \<in> set (complete_rows group_columns (rows df))"
  shows "\<exists>i < length (rows out).
           (rows out ! i) ''Customer ID'' = r ''Customer Number'' \<and>
           (rows out ! i) ''Sales person'' = r ''Sales person'' \<and>
           (rows out ! i) ''Invoice No.'' = Str (invoice_number self i)"
proof -
  let ?ks = "group_keys group_columns (complete_rows group_columns (rows df))"
  let ?k = "map r group_columns"
  have o: "out = \<lparr>columns = cols_to_keep,
                 rows = map (\<lambda>(i, k). note_row self today i (group_row df k)) (enumerate 0 ?ks)\<rparr>"
    using out by (rule generate_debit_notes_Inr)
  have "?k \<in> set ?ks"
    using r by (auto simp: set_group_keys)
  then obtain i where i: "i < length ?ks" "?ks ! i = ?k"
    by (auto simp: in_set_conv_nth)
  have len: "length ?k = length group_columns" by simp
  have row: "rows out ! i = note_row self today i (group_row df ?k)"
    using i by (simp add: o nth_enumerate_eq)
  have n: "length (rows out) = length ?ks"
    by (simp add: o)
  have "?k ! 4 = r ''Sales person''" "?k ! 0 = r ''Customer Number''"
    by (simp_all add: group_columns_def)
  then show ?thesis
    using i(1) note_row_key_cells [OF len, of self today i df]
    by (intro exI [of _ i]) (simp add: row n note_row_invoice_no)
qed

lemma invoice_number_inj: "invoice_number self i = invoice_number self j \<Longrightarrow> i = j"
proof -
  assume "invoice_number self i = invoice_number self j"
  then have "invoice_counter self (Str (invoice_number self i)) =
      invoice_counter self (Str (invoice_number self j))"
    by simp
  then show "i = j"
    by (simp add: invoice_counter_number)
qed

text \<open>
  On a table that does carry the column \<open>Sales person\<close>, two rows of one customer with
  different salespeople end up in two debit-note rows with different invoice numbers.
\<close>

lemma two_salespeople_two_notes:
  assumes out: "generate_debit_notes self today df = Inr out"
    and r1: "r1 \<in> set (complete_rows group_columns (rows df))"
    and r2: "r2 \<in> set (complete_rows group_columns (rows df))"
    and same: "r1 ''Customer Number'' = r2 ''Customer Number''"
    and diff: "r1 ''Sales person'' \<noteq> r2 ''Sales person''"
  shows "\<exists>n1\<in>set (rows out). \<exists>n2\<in>set (rows out).
           n1 ''Customer ID'' = r1 ''Customer Number'' \<and>
           n2 ''Customer ID'' = r1 ''Customer Number'' \<and>
           n1 ''Sales person'' = r1 ''Sales person'' \<and>
           n2 ''Sales person'' = r2 ''Sales person'' \<and>
           n1 ''Invoice No.'' \<noteq> n2 ''Invoice No.''"
proof -
  from key_in_notes [OF out r1] obtain i where i: "i < length (rows out)"
    "(rows out ! i) ''Customer ID'' = r1 ''Customer Number''"
    "(rows out ! i) ''Sales person'' = r1 ''Sales person''"
    "(rows out ! i) ''Invoice No.'' = Str (invoice_number self i)"
    by blast
  from key_in_notes [OF out r2] obtain j where j: "j < length (rows out)"
    "(rows out ! j) ''Customer ID'' = r2 ''Customer Number''"
    "(rows out ! j) ''Sales person'' = r2 ''Sales person''"
    "(rows out ! j) ''Invoice No.'' = Str (invoice_number self j)"
    by blast
  have "i \<noteq> j"
    using i(3) j(3) diff by auto
  then have "(rows out ! i) ''Invoice No.'' \<noteq> (rows out ! j) ''Invoice No.''"
    using i(4) j(4) invoice_number_inj [of self i j] by auto
  then show ?thesis
    using i j same
    by (intro bexI [of _ "rows out ! i"] bexI [of _ "rows out ! j"]) simp_all
qed

lemma interest_table_not_grouped:
  assumes "calculate_interest self df = Inr t"
  shows "generate_debit_notes gen today t = Inl (KeyError ''Sales person'')"
proof -
  have "columns t = final_columns"
    using calculate_interest_Inr [OF assms] by simp
  then have "find (\<lambda>c. c \<notin> set (columns t)) group_columns = Some ''Sales person''"
    by (simp add: final_columns_def group_columns_def)
  then have "group_by_customer t = Inl (KeyError ''Sales person'')"
    by (rule group_by_customer_missing)
  then show ?thesis
    by (simp add: generate_debit_notes_def)
qed

lemma ledger_two_salespeople_run:
  "calculate_interest InterestCalculator_default ledger_two_salespeople =
     Inr \<lparr>columns = final_columns,
          rows = map (interest_row InterestCalculator_default)
                   (retained InterestCalculator_default ledger_two_salespeople)\<rparr>"
  by (rule calculate_interest_success)
     (simp_all add: ledger_two_salespeople_def ledger_def ledger_row_def row_of_def)

lemma retained_ledger_two_salespeople:
  "retained InterestCalculator_default ledger_two_salespeople =
     [(ledger_row ''Asha Traders'' ''C001'' (Num 10000) (Num 200))(''Sale Person'' := Str ''Ravi''),
      (ledger_row ''Asha Traders'' ''C001'' (Num 5000) (Num 210))(''Sale Person'' := Str ''Sunil'')]"
  by (simp add: retained_def ledger_two_salespeople_def ledger_def ledger_row_def row_of_def
      exceeds_def InterestCalculator_default_def InterestCalculator_init_def)

text \<open>
  Claim C1 on the code.  The table \<open>calculate_interest\<close> returns names the salesperson column
  \<open>Sale Person\<close>; \<open>group_by_customer\<close> groups by \<open>Sales person\<close>.  For a ledger in which
  customer \<open>C001\<close> has two salespeople, the interest table has the two rows, and
  \<open>generate_debit_notes\<close> applied to it raises \<open>KeyError\<close> for \<open>Sales person\<close> instead of
  returning two debit-note rows.
\<close>

theorem pipeline_sales_person_key_error:
  "observe ''Customer Number'' (calculate_interest InterestCalculator_default ledger_two_salespeople)
     = Inr [Str ''C001'', Str ''C001''] \<and>
   observe ''Sale Person'' (calculate_interest InterestCalculator_default ledger_two_salespeople)
     = Inr [Str ''Ravi'', Str ''Sunil''] \<and>
   bind_err (calculate_interest InterestCalculator_default ledger_two_salespeople)
     (generate_debit_notes DebitNoteGenerator_default ''2026-01-31'')
     = Inl (KeyError ''Sales person'')"
proof -
  have cells: "observe ''Customer Number'' (calculate_interest InterestCalculator_default ledger_two_salespeople)
     = Inr [Str ''C001'', Str ''C001'']"
    "observe ''Sale Person'' (calculate_interest InterestCalculator_default ledger_two_salespeople)
     = Inr [Str ''Ravi'', Str ''Sunil'']"
    unfolding ledger_two_salespeople_run retained_ledger_two_salespeople
    by (simp_all add: observe_def column_def interest_row_input input_columns_def
        ledger_row_def row_of_def)
  have "bind_err (calculate_interest InterestCalculator_default ledger_two_salespeople)
     (generate_debit_notes DebitNoteGenerator_default ''2026-01-31'')
     = Inl (KeyError ''Sales person'')"
    using interest_table_not_grouped [OF ledger_two_salespeople_run]
    by (simp add: ledger_two_salespeople_run)
  with cells show ?thesis by simp
qed

lemma calculate_interest_empty:
  assumes "set input_columns \<subseteq> set (columns df)"
    and "filter_by_age self df = Inr d" and "rows d = []"
  shows "calculate_interest self df = Inr \<lparr>columns = final_columns, rows = []\<rparr>"
proof -
  have cols: "''Age'' \<in> set (columns df)" "''Customer Name'' \<in> set (columns df)"
    "''Balance Due'' \<in> set (columns df)"
    using assms(1) by (auto simp: input_columns_def)
  have d: "d = \<lparr>columns = columns df, rows = []\<rparr>"
    using assms(2,3) by (auto simp: filter_by_age_eq split: if_splits)
  let ?C = "add_column ''interest amount''
      (add_column ''working interst in %'' (add_column ''per day interst%''
      (add_column ''Previous interst'' (add_column ''interst working''
      (add_column ''Due days'' (columns df))))))"
  have sub: "set final_columns \<subseteq> set ?C"
    using assms(1) by (auto simp: final_columns_def input_columns_def)
  have sel: "select_columns final_columns \<lparr>columns = ?C, rows = []\<rparr> =
      Inr \<lparr>columns = final_columns, rows = []\<rparr>"
    using select_columns_subset [of final_columns "\<lparr>columns = ?C, rows = []\<rparr>"] sub by simp
  show ?thesis
    using cols
    by (simp add: calculate_interest_def assms(2) d sort_values_def
      calculate_working_days_eq calculate_interest_percentage_eq calculate_interest_amount_eq
      InterestCalculator_select_final_columns_def sel)
qed

lemma generate_debit_notes_empty:
  assumes "set interest_columns \<subseteq> set (columns t)"
    and "complete_rows group_columns (rows t) = []"
  shows "generate_debit_notes gen today t = Inr \<lparr>columns = cols_to_keep, rows = []\<rparr>"
  by (simp add: generate_debit_notes_eq [OF assms(1)] assms(2) group_keys_def)

text \<open>
  Claim C9 on the code.  For a cleaned ledger of which the age filter keeps no row,
  \<open>calculate_interest\<close> returns the empty table with its twenty output columns.  That table
  names the salesperson column \<open>Sale Person\<close>, so \<open>generate_debit_notes\<close>, which the
  presentation layer applies to it next, raises \<open>KeyError\<close> for \<open>Sales person\<close> instead of
  returning an empty table.
\<close>

theorem empty_pipeline_key_error:
  "calculate_interest InterestCalculator_default ledger_young =
     Inr \<lparr>columns = final_columns, rows = []\<rparr> \<and>
   length final_columns = 20 \<and>
   bind_err (calculate_interest InterestCalculator_default ledger_young)
     (generate_debit_notes DebitNoteGenerator_default ''2026-01-31'')
     = Inl (KeyError ''Sales person'')"
proof -
  have a: "set input_columns \<subseteq> set (columns ledger_young)"
    by (simp add: ledger_young_def ledger_def)
  have f: "filter_by_age InterestCalculator_default ledger_young =
      Inr \<lparr>columns = input_columns, rows = []\<rparr>"
    by (simp add: filter_by_age_eq ledger_young_def ledger_def ledger_row_def row_of_def
        input_columns_def exceeds_def InterestCalculator_default_def InterestCalculator_init_def)
  have run: "calculate_interest InterestCalculator_default ledger_young =
      Inr \<lparr>columns = final_columns, rows = []\<rparr>"
    by (rule calculate_interest_empty [OF a f]) simp
  show ?thesis
    using interest_table_not_grouped [OF run]
    by (simp add: run final_columns_def)
qed

text \<open>
  Claim C7, as amended.  The description literal is the fixed text \<open>OD Charges Dec-2025\<close>:
  in every row of the table \<open>generate_debit_notes\<close> returns, \<open>Notes\<close> and \<open>Item Desc\<close> equal
  it, whatever the prefix, the starting number and the date; \<open>Description\<close> is not a column
  of that table.
\<close>

theorem description_literal_fixed:
  assumes "generate_debit_notes self today df = Inr out"
  shows "''Description'' \<notin> set (columns out) \<and>
    (\<forall>r\<in>set (rows out).
       r ''Notes'' = Str ''OD Charges Dec-2025'' \<and> r ''Item Desc'' = Str ''OD Charges Dec-2025'')"
proof -
  have out: "out = \<lparr>columns = cols_to_keep,
                 rows = map (\<lambda>(i, k). note_row self today i (group_row df k))
                          (enumerate 0 (group_keys group_columns
                             (complete_rows group_columns (rows df))))\<rparr>"
    using assms by (rule generate_debit_notes_Inr)
  show ?thesis
    by (auto simp: out note_row_literals od_charges_def cols_to_keep_def)
qed

lemma interest_lines_notes:
  "observe ''Notes'' (generate_debit_notes self today interest_lines) =
     Inr [Str ''OD Charges Dec-2025'', Str ''OD Charges Dec-2025'', Str ''OD Charges Dec-2025'']"
  "observe ''Item Desc'' (generate_debit_notes self today interest_lines) =
     Inr [Str ''OD Charges Dec-2025'', Str ''OD Charges Dec-2025'', Str ''OD Charges Dec-2025'']"
  by (simp_all add: interest_lines_run interest_lines_keys observe_def column_def
      note_row_literals od_charges_def)

theorem description_literal_fixed_witness:
  "observe ''Notes''
     (generate_debit_notes DebitNoteGenerator_default ''2026-01-31'' interest_lines) =
     Inr [Str ''OD Charges Dec-2025'', Str ''OD Charges Dec-2025'', Str ''OD Charges Dec-2025''] \<and>
   observe ''Item Desc''
     (generate_debit_notes DebitNoteGenerator_default ''2026-01-31'' interest_lines) =
     Inr [Str ''OD Charges Dec-2025'', Str ''OD Charges Dec-2025'', Str ''OD Charges Dec-2025'']"
  using description_literal_fixed [OF interest_lines_run,
      of DebitNoteGenerator_default "''2026-01-31''"]
    interest_lines_notes [of DebitNoteGenerator_default "''2026-01-31''"]
  by simp

text \<open>
  Claim C7 as stated makes the literal a parameter of the invocation.  The generator is
  constructed from a prefix and a starting number only; two generators that differ in both,
  run on different dates, write the same \<open>OD Charges Dec-2025\<close> into \<open>Notes\<close> and
  \<open>Item Desc\<close>, and the output has no \<open>Description\<close> column.
\<close>

theorem description_not_configurable_counterexample:
  "observe ''Notes''
     (generate_debit_notes (DebitNoteGenerator_init ''CDN/SA-'' 311) ''2026-01-31'' interest_lines) =
     Inr [Str ''OD Charges Dec-2025'', Str ''OD Charges Dec-2025'', Str ''OD Charges Dec-2025''] \<and>
   observe ''Notes''
     (generate_debit_notes (DebitNoteGenerator_init ''DN/2026-'' 1) ''2026-06-30'' interest_lines) =
     Inr [Str ''OD Charges Dec-2025'', Str ''OD Charges Dec-2025'', Str ''OD Charges Dec-2025''] \<and>
   observe ''Item Desc''
     (generate_debit_notes (DebitNoteGenerator_init ''DN/2026-'' 1) ''2026-06-30'' interest_lines) =
     Inr [Str ''OD Charges Dec-2025'', Str ''OD Charges Dec-2025'', Str ''OD Charges Dec-2025''] \<and>
   ''Description'' \<notin> set cols_to_keep"
  by (simp add: interest_lines_notes) (simp add: cols_to_keep_def)

section \<open>Configuration\<close>

text \<open>
  Claim C8, as amended.  No configuration is rejected.  The two constructors store the rate,
  the threshold, the working-day cap, the prefix and the starting number exactly as given,
  whatever their values, and raise nothing.
\<close>

theorem configuration_not_validated:
  "per_day_rate (InterestCalculator_init rate threshold max_days) = rate \<and>
   due_days_threshold (InterestCalculator_init rate threshold max_days) = threshold \<and>
   max_working_days (InterestCalculator_init rate threshold max_days) = max_days \<and>
   invoice_prefix (DebitNoteGenerator_init prefix start) = prefix \<and>
   starting_number (DebitNoteGenerator_init prefix start) = start"
  by (simp add: InterestCalculator_init_def DebitNoteGenerator_init_def)

lemma ledger_negative_rate_run:
  "calculate_interest (InterestCalculator_init (- 6 / 100) 150 31) ledger_ages =
     Inr \<lparr>columns = final_columns,
          rows = map (interest_row (InterestCalculator_init (- 6 / 100) 150 31))
                   (retained (InterestCalculator_init (- 6 / 100) 150 31) ledger_ages)\<rparr>"
  by (rule calculate_interest_success)
     (simp_all add: ledger_ages_def ledger_def ledger_row_def row_of_def)

lemma retained_ledger_negative_rate:
  "retained (InterestCalculator_init (- 6 / 100) 150 31) ledger_ages =
     [ledger_row ''Bharat Stores'' ''C002'' (Num 10000) (Num 200),
      ledger_row ''Chand Bros'' ''C003'' (Num 2500) (Num 151)]"
  by (simp add: retained_def ledger_ages_def ledger_def ledger_row_def row_of_def exceeds_def
      InterestCalculator_init_def)

lemma negative_rate_amounts:
  "observe ''interest amount''
     (calculate_interest (InterestCalculator_init (- 6 / 100) 150 31) ledger_ages) =
     Inr [Num (- 186), Num (- 3 / 2)]"
  unfolding ledger_negative_rate_run retained_ledger_negative_rate
  by (simp add: observe_def column_def interest_row_working interest_row_percentage
      interest_row_amount ledger_row_def row_of_def on_value_def on_values_def round_to_def
      round_half_even_def InterestCalculator_init_def)

lemma replicate_numeral: "replicate (numeral k) x = x # replicate (pred_numeral k) x"
  by (simp add: numeral_eq_Suc)

lemma negative_start_numbers:
  "invoice_number (DebitNoteGenerator_init ''CDN/SA-'' (- 2)) 0 = ''CDN/SA--00002''"
  "invoice_number (DebitNoteGenerator_init ''CDN/SA-'' (- 2)) (Suc 0) = ''CDN/SA--00001''"
  "invoice_number (DebitNoteGenerator_init ''CDN/SA-'' (- 2)) (Suc (Suc 0)) = ''CDN/SA-000000''"
  by (simp_all add: invoice_number_def DebitNoteGenerator_init_def zfill_def str_int_def
      str_nat.simps digit_char_def replicate_numeral)

lemma negative_start_invoices:
  "observe ''Invoice No.''
     (generate_debit_notes (DebitNoteGenerator_init ''CDN/SA-'' (- 2)) today interest_lines) =
     Inr [Str ''CDN/SA--00002'', Str ''CDN/SA--00001'', Str ''CDN/SA-000000'']"
  by (simp add: interest_lines_run interest_lines_keys observe_def column_def
      note_row_invoice_no negative_start_numbers)

text \<open>
  Claim C8 as stated has invalid configurations rejected before any processing.  A negative
  rate, a working-day cap of zero and a negative starting number are each accepted by the
  constructor, and processing runs with them: the interest amounts come out negative, all
  overdue days are counted as previous interest, and the invoice numbers carry a minus sign.
\<close>

theorem invalid_configuration_counterexample:
  "per_day_rate (InterestCalculator_init (- 6 / 100) 150 31) = - 6 / 100 \<and>
   observe ''interest amount''
     (calculate_interest (InterestCalculator_init (- 6 / 100) 150 31) ledger_ages) =
     Inr [Num (- 186), Num (- 3 / 2)] \<and>
   max_working_days (InterestCalculator_init (6 / 100) 150 0) = 0 \<and>
   observe ''Previous interst''
     (calculate_interest (InterestCalculator_init (6 / 100) 150 0) ledger_ages) =
     Inr [Num 50, Num 1] \<and>
   starting_number (DebitNoteGenerator_init ''CDN/SA-'' (- 2)) = - 2 \<and>
   observe ''Invoice No.''
     (generate_debit_notes (DebitNoteGenerator_init ''CDN/SA-'' (- 2)) ''2026-01-31''
        interest_lines) =
     Inr [Str ''CDN/SA--00002'', Str ''CDN/SA--00001'', Str ''CDN/SA-000000'']"
proof -
  have p: "observe ''Previous interst''
     (calculate_interest (InterestCalculator_init (6 / 100) 150 0) ledger_ages) =
     Inr [Num 50, Num 1]"
    unfolding ledger_zero_cap_run retained_ledger_zero_cap
    by (simp add: observe_def column_def interest_row_working interest_row_previous
        ledger_row_def row_of_def on_value_def on_values_def InterestCalculator_init_def)
  show ?thesis
    using p negative_rate_amounts negative_start_invoices [of "''2026-01-31''"]
    by (simp add: InterestCalculator_init_def DebitNoteGenerator_init_def)
qed

end
